theory Spec2Isabelle
  imports Main
begin

section \<open>Values, errors and the platform\<close>

text \<open>
  The client is asynchronous TypeScript. Every function below is its sequential
  reading: an awaited call is a call, a thrown exception is a result \<open>Inl e\<close>, and
  the file system, the clock and the network are fields of an explicit \<open>world\<close>
  that each effectful function takes and returns.

  What the model takes from the environment:
  \<^item> JSON documents are seen through the members the code reads, with the types
    the code expects of them: a string member is \<open>None\<close> when the key is absent
    (JavaScript's \<open>undefined\<close>), \<open>expires_in\<close> is an integer, an entity list is an
    array of objects;
  \<^item> strings are ASCII, numbers are integers or \<open>NaN\<close>; an entity name names
    no built-in property of a JavaScript object (the names of the command
    line's table do not);
  \<^item> the clock is read as one value during a run, and writing the credentials
    file succeeds;
  \<^item> the remote is any function from the number of the call to a reply, so a
    theorem about every world is about every behaviour of the remote.
\<close>

datatype js_error =
    Error string
  | TypeError string
  | SyntaxError string
  | RangeError string
  | ErrnoException string string

fun message :: "js_error \<Rightarrow> string" where
  "message (Error m) = m"
| "message (TypeError m) = m"
| "message (SyntaxError m) = m"
| "message (RangeError m) = m"
| "message (ErrnoException c m) = m"

text \<open>\<open>err.code\<close>: only the file system's errors carry one.\<close>

fun code :: "js_error \<Rightarrow> string option" where
  "code (ErrnoException c m) = Some c"
| "code _ = None"

text \<open>Truthiness of an optional string: \<open>undefined\<close> and \<open>""\<close> are falsy.\<close>

definition truthy :: "string option \<Rightarrow> bool" where
  "truthy v = (case v of None \<Rightarrow> False | Some s \<Rightarrow> s \<noteq> [])"

text \<open>What a template literal prints for an optional string.\<close>

definition str :: "string option \<Rightarrow> string" where
  "str v = (case v of None \<Rightarrow> ''undefined'' | Some s \<Rightarrow> s)"

text \<open>A JavaScript number that is an integer or \<open>NaN\<close> (what \<open>parseInt\<close> yields).\<close>

datatype num = NaN | Num int

definition digit :: "nat \<Rightarrow> char" where
  "digit d = ''0123456789'' ! d"

fun dec_nat :: "nat \<Rightarrow> string" where
  "dec_nat n = (if n < 10 then [digit n] else dec_nat (n div 10) @ [digit (n mod 10)])"

declare dec_nat.simps [simp del]

definition dec_int :: "int \<Rightarrow> string" where
  "dec_int i = (if i < 0 then CHR ''-'' # dec_nat (nat (- i)) else dec_nat (nat i))"

fun dec_num :: "num \<Rightarrow> string" where
  "dec_num NaN = ''NaN''"
| "dec_num (Num i) = dec_int i"

text \<open>\<open>n < m\<close> for an array length \<open>n\<close>: every comparison with \<open>NaN\<close> is false.\<close>

fun lt_num :: "nat \<Rightarrow> num \<Rightarrow> bool" where
  "lt_num n NaN = False"
| "lt_num n (Num m) = (int n < m)"

section \<open>Credentials (auth.ts)\<close>

record QBCredentials =
  client_id :: "string option"
  client_secret :: "string option"
  realm_id :: "string option"
  access_token :: "string option"
  refresh_token :: "string option"
  token_expiry :: "string option"

text \<open>
  The credentials file as \<open>fs.readFile\<close> and \<open>JSON.parse\<close> see it: the read
  fails with an error code, the text is not JSON, or it is a JSON object.
\<close>

datatype file_state =
    ReadFails string string
  | NotJSON string
  | Parsed QBCredentials

text \<open>An entity of the remote system: the string-valued members of a JSON object.\<close>

type_synonym entity_doc = "(string \<times> string) list"

text \<open>The body of a response, as \<open>response.json()\<close> parses it.\<close>

record json_doc =
  j_access_token :: "string option"
  j_refresh_token :: "string option"
  j_expires_in :: "int option"
  j_QueryResponse :: "(string \<times> entity_doc list) list option"
  j_members :: "(string \<times> entity_doc) list"

record http_response =
  status :: nat
  statusText :: string
  body_text :: string
  body_json :: "string + json_doc"

definition ok :: "http_response \<Rightarrow> bool" where
  "ok r = (200 \<le> status r \<and> status r \<le> 299)"

datatype reply = Rejects string | Responds http_response

datatype auth_header = Basic string string | Bearer string

datatype payload = Form "(string \<times> string) list" | Text string | NoBody

record request =
  http_method :: string
  url :: string
  authorization :: auth_header
  accept :: string
  content_type :: "string option"
  payload :: payload

text \<open>
  The platform's library functions the code calls: \<open>new Date(s).getTime()\<close>
  (\<open>None\<close> for \<open>NaN\<close>), the text \<open>toISOString\<close> prints for a time value in range,
  and \<open>JSON.stringify\<close>.
\<close>

record platform =
  Date_getTime :: "string \<Rightarrow> int option"
  Date_iso :: "int \<Rightarrow> string"
  JSON_stringify :: "json_doc \<Rightarrow> string"

text \<open>
  The world: the path of the credentials file, \<open>Date.now()\<close> in milliseconds, the
  credentials file, the remote (its reply to the \<open>i\<close>-th call of the run) and
  the requests issued so far.
\<close>

record world =
  tokenPath :: string
  clock :: int
  stored :: file_state
  remote :: "nat \<Rightarrow> reply"
  sent :: "request list"

definition TOKEN_URL :: string where
  "TOKEN_URL = ''https://oauth.platform.intuit.com/oauth2/v1/tokens/bearer''"

text \<open>\<open>fetch\<close>: logs the request; a network failure rejects with a \<open>TypeError\<close>.\<close>

definition fetch :: "request \<Rightarrow> world \<Rightarrow> (js_error + http_response) \<times> world" where
  "fetch rq w =
     (let w' = w\<lparr>sent := sent w @ [rq]\<rparr> in
      case remote w (length (sent w)) of
        Rejects m \<Rightarrow> (Inl (TypeError m), w')
      | Responds r \<Rightarrow> (Inr r, w'))"

text \<open>\<open>toISOString\<close> throws outside the range of \<open>Date\<close>.\<close>

definition toISOString :: "platform \<Rightarrow> int \<Rightarrow> js_error + string" where
  "toISOString rt t =
     (if \<bar>t\<bar> \<le> 8640000000000000 then Inr (Date_iso rt t)
      else Inl (RangeError ''Invalid time value''))"

definition readCredentialsFile :: "world \<Rightarrow> js_error + QBCredentials" where
  "readCredentialsFile w =
     (case stored w of
        ReadFails c m \<Rightarrow> Inl (ErrnoException c m)
      | NotJSON m \<Rightarrow> Inl (SyntaxError m)
      | Parsed data \<Rightarrow>
          if \<not> truthy (client_id data) \<or> \<not> truthy (client_secret data)
             \<or> \<not> truthy (realm_id data) \<or> \<not> truthy (refresh_token data)
          then Inl (Error (''Missing required fields in credentials file.\<newline>''
                 @ ''Required: client_id, client_secret, realm_id, refresh_token\<newline>''
                 @ ''File: '' @ tokenPath w))
          else Inr data)"

text \<open>
  The \<open>try\<close> block of \<open>loadCredentials\<close> is \<open>readCredentialsFile\<close>; its \<open>catch\<close>
  rewrites \<open>ENOENT\<close> and throws every other error on.
\<close>

definition loadCredentials :: "world \<Rightarrow> js_error + QBCredentials" where
  "loadCredentials w =
     (case readCredentialsFile w of
        Inl err \<Rightarrow>
          if code err = Some ''ENOENT''
          then Inl (Error (''Credentials file not found at: '' @ tokenPath w
                 @ ''\<newline>\<newline>Run: npx tsx scripts/quickbooks.ts setup\<newline>\<newline>''
                 @ ''For setup instructions.''))
          else Inl err
      | Inr data \<Rightarrow> Inr data)"

text \<open>Writing the file is taken to succeed: it then holds the record given.\<close>

definition saveCredentials :: "QBCredentials \<Rightarrow> world \<Rightarrow> world" where
  "saveCredentials credentials w = w\<lparr>stored := Parsed credentials\<rparr>"

definition token_request :: "QBCredentials \<Rightarrow> request" where
  "token_request credentials =
     \<lparr>http_method = ''POST'', url = TOKEN_URL,
      authorization = Basic (str (client_id credentials)) (str (client_secret credentials)),
      accept = ''application/json'',
      content_type = Some ''application/x-www-form-urlencoded'',
      payload = Form [(''grant_type'', ''refresh_token''),
                      (''refresh_token'', str (refresh_token credentials))]\<rparr>"

text \<open>\<open>data.expires_in || 3600\<close>: an absent or zero lifetime is falsy.\<close>

definition lifetime :: "json_doc \<Rightarrow> int" where
  "lifetime data =
     (case j_expires_in data of
        None \<Rightarrow> 3600
      | Some n \<Rightarrow> if n = 0 then 3600 else n)"

definition refreshAccessToken :: "platform \<Rightarrow> world \<Rightarrow> (js_error + QBCredentials) \<times> world" where
  "refreshAccessToken rt w =
     (case loadCredentials w of
        Inl e \<Rightarrow> (Inl e, w)
      | Inr credentials \<Rightarrow>
          (case fetch (token_request credentials) w of
             (Inl e, w1) \<Rightarrow> (Inl e, w1)
           | (Inr response, w1) \<Rightarrow>
               if \<not> ok response
               then (Inl (Error (''Token refresh failed: '' @ dec_nat (status response)
                       @ '' '' @ statusText response @ ''\<newline>'' @ body_text response)), w1)
               else
                 (case body_json response of
                    Inl m \<Rightarrow> (Inl (SyntaxError m), w1)
                  | Inr data \<Rightarrow>
                      if \<not> truthy (j_access_token data)
                      then (Inl (Error (''Token refresh response missing access_token: ''
                              @ JSON_stringify rt data)), w1)
                      else
                        (case toISOString rt (clock w1 + lifetime data * 1000) of
                           Inl e \<Rightarrow> (Inl e, w1)
                         | Inr expiry \<Rightarrow>
                             (let updatedCredentials = credentials
                                    \<lparr>access_token := j_access_token data,
                                     refresh_token :=
                                       (if truthy (j_refresh_token data)
                                        then j_refresh_token data
                                        else refresh_token credentials),
                                     token_expiry := Some expiry\<rparr>
                              in (Inr updatedCredentials,
                                  saveCredentials updatedCredentials w1))))))"

text \<open>
  The cached token is used when it and its expiry are truthy and the expiry,
  read as a date, is more than five minutes after the clock.
\<close>

definition still_valid :: "platform \<Rightarrow> world \<Rightarrow> QBCredentials \<Rightarrow> bool" where
  "still_valid rt w credentials =
     (truthy (access_token credentials) \<and> truthy (token_expiry credentials) \<and>
      (case Date_getTime rt (str (token_expiry credentials)) of
         None \<Rightarrow> False
       | Some expiry \<Rightarrow> expiry - clock w > 5 * 60 * 1000))"

definition getValidAccessToken ::
  "platform \<Rightarrow> world \<Rightarrow> (js_error + string \<times> string) \<times> world" where
  "getValidAccessToken rt w =
     (case loadCredentials w of
        Inl e \<Rightarrow> (Inl e, w)
      | Inr credentials \<Rightarrow>
          if still_valid rt w credentials
          then (Inr (str (access_token credentials), str (realm_id credentials)), w)
          else
            (case refreshAccessToken rt w of
               (Inl e, w') \<Rightarrow> (Inl e, w')
             | (Inr credentials', w') \<Rightarrow>
                 if \<not> truthy (access_token credentials')
                 then (Inl (Error ''Failed to get access token after refresh''), w')
                 else (Inr (str (access_token credentials'), str (realm_id credentials')), w')))"

section \<open>The API client (qb-client.ts)\<close>

definition MINOR_VERSION :: nat where
  "MINOR_VERSION = 75"

definition MAX_RESULTS_PER_PAGE :: nat where
  "MAX_RESULTS_PER_PAGE = 1000"

record QueryOptions =
  start :: "string option"
  end' :: "string option"
  queryBy :: "string option"
  where' :: "string option"
  maxResults :: "num option"

definition toLowerCase :: "string \<Rightarrow> string" where
  "toLowerCase s =
     map (\<lambda>c. if c \<in> set ''ABCDEFGHIJKLMNOPQRSTUVWXYZ''
              then char_of (of_char c + (32::nat)) else c) s"

definition getApiUrl :: "string \<Rightarrow> string" where
  "getApiUrl realmId =
     ''https://quickbooks.api.intuit.com/v3/company/'' @ realmId
     @ ''/query?minorversion='' @ dec_nat MINOR_VERSION"

definition getEntityUrl :: "string \<Rightarrow> string \<Rightarrow> string \<Rightarrow> string" where
  "getEntityUrl realmId entity ident =
     ''https://quickbooks.api.intuit.com/v3/company/'' @ realmId @ ''/''
     @ toLowerCase entity @ ''/'' @ ident @ ''?minorversion='' @ dec_nat MINOR_VERSION"

definition getCompanyInfoUrl :: "string \<Rightarrow> string" where
  "getCompanyInfoUrl realmId =
     ''https://quickbooks.api.intuit.com/v3/company/'' @ realmId @ ''/companyinfo/''
     @ realmId @ ''?minorversion='' @ dec_nat MINOR_VERSION"

definition formatDateForQuery :: "string \<Rightarrow> bool \<Rightarrow> string" where
  "formatDateForQuery date isEnd =
     (if CHR ''T'' \<in> set date then [CHR 0x27] @ date @ [CHR 0x27]
      else (let time = (if isEnd then ''23:59:59Z'' else ''00:00:00Z'')
            in [CHR 0x27] @ date @ ''T'' @ time @ [CHR 0x27]))"

fun join :: "string \<Rightarrow> string list \<Rightarrow> string" where
  "join sep [] = []"
| "join sep [x] = x"
| "join sep (x # y # ys) = x @ sep @ join sep (y # ys)"

definition conditions :: "QueryOptions \<Rightarrow> string list" where
  "conditions options =
     (let qb = (case queryBy options of None \<Rightarrow> ''MetaData.LastUpdatedTime'' | Some q \<Rightarrow> q)
      in (if truthy (start options)
          then [qb @ '' >= '' @ formatDateForQuery (str (start options)) False] else [])
       @ (if truthy (end' options)
          then [qb @ '' <= '' @ formatDateForQuery (str (end' options)) True] else [])
       @ (if truthy (where' options) then [str (where' options)] else []))"

definition whereClause :: "QueryOptions \<Rightarrow> string" where
  "whereClause options =
     (if length (conditions options) > 0
      then ''WHERE '' @ join '' AND '' (conditions options) else [])"

definition transactionEntities :: "string list" where
  "transactionEntities =
     [''Invoice'', ''Bill'', ''Purchase'', ''Deposit'', ''Payment'',
      ''TimeActivity'', ''Estimate'', ''SalesReceipt'', ''CreditMemo'', ''JournalEntry'']"

definition orderBy :: "string \<Rightarrow> string" where
  "orderBy entity =
     (if entity \<in> set transactionEntities
      then ''ORDER BY TxnDate DESC, Id DESC''
      else ''ORDER BY Id DESC'')"

definition query_sql :: "string \<Rightarrow> string \<Rightarrow> string \<Rightarrow> nat \<Rightarrow> num \<Rightarrow> string" where
  "query_sql entity wc ob startPosition mr =
     ''SELECT * FROM '' @ entity @ '' '' @ wc @ '' '' @ ob
     @ '' STARTPOSITION '' @ dec_nat startPosition @ '' MAXRESULTS '' @ dec_num mr"

definition query_request :: "string \<Rightarrow> string \<Rightarrow> string \<Rightarrow> request" where
  "query_request apiUrl accessToken sql =
     \<lparr>http_method = ''POST'', url = apiUrl, authorization = Bearer accessToken,
      accept = ''application/json'', content_type = Some ''application/text'',
      payload = Text sql\<rparr>"

text \<open>\<open>data.QueryResponse?.[entity] || []\<close>\<close>

definition rows :: "json_doc \<Rightarrow> string \<Rightarrow> entity_doc list" where
  "rows data entity =
     (case j_QueryResponse data of
        None \<Rightarrow> []
      | Some qr \<Rightarrow> (case map_of qr entity of None \<Rightarrow> [] | Some rs \<Rightarrow> rs))"

definition api_error :: "http_response \<Rightarrow> js_error" where
  "api_error response =
     Error (''QuickBooks API error: '' @ dec_nat (status response) @ '' ''
            @ statusText response @ ''\<newline>'' @ body_text response)"

text \<open>
  The \<open>while (true)\<close> loop of \<open>query\<close>. It need not terminate: not returning
  is the value \<open>None\<close>.
\<close>

partial_function (option) query_loop ::
  "string \<Rightarrow> string \<Rightarrow> string \<Rightarrow> string \<Rightarrow> string \<Rightarrow> num \<Rightarrow> entity_doc list \<Rightarrow> nat \<Rightarrow> world
   \<Rightarrow> ((js_error + entity_doc list) \<times> world) option" where
  "query_loop apiUrl accessToken entity wc ob mr allResults startPosition w =
     (case fetch (query_request apiUrl accessToken
                    (query_sql entity wc ob startPosition mr)) w of
        (Inl e, w') \<Rightarrow> Some (Inl e, w')
      | (Inr response, w') \<Rightarrow>
          if \<not> ok response then Some (Inl (api_error response), w')
          else
            (case body_json response of
               Inl m \<Rightarrow> Some (Inl (SyntaxError m), w')
             | Inr data \<Rightarrow>
                 (let results = rows data entity;
                      allResults' = allResults @ results
                  in if lt_num (length results) mr then Some (Inr allResults', w')
                     else query_loop apiUrl accessToken entity wc ob mr allResults'
                            (startPosition + length results) w')))"

definition query ::
  "platform \<Rightarrow> string \<Rightarrow> QueryOptions \<Rightarrow> world
   \<Rightarrow> ((js_error + entity_doc list) \<times> world) option" where
  "query rt entity options w =
     (case getValidAccessToken rt w of
        (Inl e, w1) \<Rightarrow> Some (Inl e, w1)
      | (Inr (accessToken, realmId), w1) \<Rightarrow>
          query_loop (getApiUrl realmId) accessToken entity (whereClause options)
            (orderBy entity)
            (case maxResults options of None \<Rightarrow> Num (int MAX_RESULTS_PER_PAGE) | Some m \<Rightarrow> m)
            [] 1 w1)"

definition get_request :: "string \<Rightarrow> string \<Rightarrow> request" where
  "get_request u accessToken =
     \<lparr>http_method = ''GET'', url = u, authorization = Bearer accessToken,
      accept = ''application/json'', content_type = None, payload = NoBody\<rparr>"

definition getById ::
  "platform \<Rightarrow> string \<Rightarrow> string \<Rightarrow> world \<Rightarrow> (js_error + entity_doc option) \<times> world" where
  "getById rt entity ident w =
     (case getValidAccessToken rt w of
        (Inl e, w1) \<Rightarrow> (Inl e, w1)
      | (Inr (accessToken, realmId), w1) \<Rightarrow>
          (case fetch (get_request (getEntityUrl realmId entity ident) accessToken) w1 of
             (Inl e, w2) \<Rightarrow> (Inl e, w2)
           | (Inr response, w2) \<Rightarrow>
               if \<not> ok response then (Inl (api_error response), w2)
               else
                 (case body_json response of
                    Inl m \<Rightarrow> (Inl (SyntaxError m), w2)
                  | Inr data \<Rightarrow> (Inr (map_of (j_members data) entity), w2))))"

text \<open>
  \<open>refMap[k] = v\<close> on the plain object \<open>refMap\<close>, read as the map from its own
  keys to their values. The key \<open>__proto__\<close> is the accessor of the prototype, whose
  setter ignores a string: the assignment then makes no key. Every other key is
  made or overwritten.
\<close>

definition assign :: "(string \<rightharpoonup> string) \<Rightarrow> string \<Rightarrow> string \<Rightarrow> (string \<rightharpoonup> string)" where
  "assign refMap k v = (if k = ''__proto__'' then refMap else refMap(k \<mapsto> v))"

text \<open>
  The \<open>for\<close> loop of \<open>getReferenceMaps\<close> over one page: a record with a truthy
  \<open>Id\<close> and a truthy \<open>FullyQualifiedName\<close> is assigned into the map.
\<close>

definition has_both :: "entity_doc \<Rightarrow> bool" where
  "has_both ref = (truthy (map_of ref ''Id'') \<and> truthy (map_of ref ''FullyQualifiedName''))"

fun add_refs :: "entity_doc list \<Rightarrow> (string \<rightharpoonup> string) \<Rightarrow> (string \<rightharpoonup> string)" where
  "add_refs [] refMap = refMap"
| "add_refs (ref # refs) refMap =
     add_refs refs
       (if has_both ref
        then assign refMap (str (map_of ref ''Id'')) (str (map_of ref ''FullyQualifiedName''))
        else refMap)"

definition refs_sql :: "string \<Rightarrow> nat \<Rightarrow> string" where
  "refs_sql entityType startPosition =
     ''SELECT Id, FullyQualifiedName FROM '' @ entityType
     @ '' STARTPOSITION '' @ dec_nat startPosition
     @ '' MAXRESULTS '' @ dec_nat MAX_RESULTS_PER_PAGE"

partial_function (option) refs_loop ::
  "string \<Rightarrow> string \<Rightarrow> string \<Rightarrow> (string \<rightharpoonup> string) \<Rightarrow> nat \<Rightarrow> world
   \<Rightarrow> ((js_error + (string \<rightharpoonup> string)) \<times> world) option" where
  "refs_loop apiUrl accessToken entityType refMap startPosition w =
     (case fetch (query_request apiUrl accessToken (refs_sql entityType startPosition)) w of
        (Inl e, w') \<Rightarrow> Some (Inl e, w')
      | (Inr response, w') \<Rightarrow>
          if \<not> ok response then Some (Inl (api_error response), w')
          else
            (case body_json response of
               Inl m \<Rightarrow> Some (Inl (SyntaxError m), w')
             | Inr data \<Rightarrow>
                 (let refs = rows data entityType
                  in if length refs = 0 then Some (Inr refMap, w')
                     else
                       (let refMap' = add_refs refs refMap
                        in if length refs < MAX_RESULTS_PER_PAGE then Some (Inr refMap', w')
                           else refs_loop apiUrl accessToken entityType refMap'
                                  (startPosition + length refs) w'))))"

definition getReferenceMaps ::
  "platform \<Rightarrow> string \<Rightarrow> world \<Rightarrow> ((js_error + (string \<rightharpoonup> string)) \<times> world) option" where
  "getReferenceMaps rt entityType w =
     (case getValidAccessToken rt w of
        (Inl e, w1) \<Rightarrow> Some (Inl e, w1)
      | (Inr (accessToken, realmId), w1) \<Rightarrow>
          refs_loop (getApiUrl realmId) accessToken entityType Map.empty 1 w1)"

record check_result =
  connected :: bool
  companyInfo :: "entity_doc option"
  realmId :: "string option"
  error :: "string option"

text \<open>The \<open>try\<close> block of \<open>checkConnection\<close>.\<close>

definition checkConnection_try ::
  "platform \<Rightarrow> world \<Rightarrow> (js_error + check_result) \<times> world" where
  "checkConnection_try rt w =
     (case getValidAccessToken rt w of
        (Inl e, w1) \<Rightarrow> (Inl e, w1)
      | (Inr (accessToken, rid), w1) \<Rightarrow>
          (case fetch (get_request (getCompanyInfoUrl rid) accessToken) w1 of
             (Inl e, w2) \<Rightarrow> (Inl e, w2)
           | (Inr response, w2) \<Rightarrow>
               if \<not> ok response
               then (Inr \<lparr>connected = False, companyInfo = None, realmId = None,
                          error = Some (''API error: '' @ dec_nat (status response) @ '' ''
                                    @ statusText response @ ''\<newline>''
                                    @ body_text response)\<rparr>, w2)
               else
                 (case body_json response of
                    Inl m \<Rightarrow> (Inl (SyntaxError m), w2)
                  | Inr data \<Rightarrow>
                      (Inr \<lparr>connected = True,
                            companyInfo = map_of (j_members data) ''CompanyInfo'',
                            realmId = Some rid, error = None\<rparr>, w2))))"

text \<open>The \<open>catch\<close>: whatever the block threw becomes the result's \<open>error\<close>.\<close>

definition checkConnection ::
  "platform \<Rightarrow> world \<Rightarrow> (js_error + check_result) \<times> world" where
  "checkConnection rt w =
     (case checkConnection_try rt w of
        (Inl err, w') \<Rightarrow>
          (Inr \<lparr>connected = False, companyInfo = None, realmId = None,
                error = Some (message err)\<rparr>, w')
      | (Inr r, w') \<Rightarrow> (Inr r, w'))"

section \<open>The command line (quickbooks.ts)\<close>

definition is_space :: "char \<Rightarrow> bool" where
  "is_space c = (c \<in> set [CHR '' '', CHR 0x09, CHR 0x0A, CHR 0x0B, CHR 0x0C, CHR 0x0D])"

definition is_digit :: "char \<Rightarrow> bool" where
  "is_digit c = (c \<in> set ''0123456789'')"

definition digits_value :: "string \<Rightarrow> nat" where
  "digits_value ds = foldl (\<lambda>a c. 10 * a + (of_char c - 48)) 0 ds"

text \<open>
  \<open>parseInt(s, 10)\<close>: leading white space, a sign, then the longest run of
  decimal digits; \<open>NaN\<close> when there is none.
\<close>

definition parseInt :: "string \<Rightarrow> num" where
  "parseInt s =
     (let s1 = dropWhile is_space s;
          neg = (case s1 of [] \<Rightarrow> False | c # r \<Rightarrow> c = CHR ''-'');
          s2 = (case s1 of [] \<Rightarrow> []
                | c # r \<Rightarrow> if c = CHR ''-'' \<or> c = CHR ''+'' then r else s1);
          ds = takeWhile is_digit s2
      in if ds = [] then NaN
         else Num (if neg then - int (digits_value ds) else int (digits_value ds)))"

text \<open>
  The options \<open>handleEntityQuery\<close> builds from the flags, and its call of
  \<open>query\<close> with them (printing the result is left out).
\<close>

definition handleEntityQuery_options :: "(string \<rightharpoonup> string) \<Rightarrow> QueryOptions" where
  "handleEntityQuery_options flags =
     \<lparr>start = (if truthy (flags ''start'') then flags ''start'' else None),
      end' = (if truthy (flags ''end'') then flags ''end'' else None),
      queryBy = (if truthy (flags ''query-by'') then flags ''query-by'' else None),
      where' = (if truthy (flags ''where'') then flags ''where'' else None),
      maxResults = (if truthy (flags ''max'') then Some (parseInt (str (flags ''max'')))
                    else None)\<rparr>"

definition handleEntityQuery ::
  "platform \<Rightarrow> string \<Rightarrow> (string \<rightharpoonup> string) \<Rightarrow> world
   \<Rightarrow> ((js_error + entity_doc list) \<times> world) option" where
  "handleEntityQuery rt entity flags w = query rt entity (handleEntityQuery_options flags) w"

section \<open>Vocabulary of the statements\<close>

text \<open>The four fields \<open>loadCredentials\<close> insists on.\<close>

definition required_present :: "QBCredentials \<Rightarrow> bool" where
  "required_present c =
     (truthy (client_id c) \<and> truthy (client_secret c) \<and> truthy (realm_id c)
      \<and> truthy (refresh_token c))"

text \<open>The optional pair: \<open>access_token\<close> and \<open>token_expiry\<close> are both there or both missing.\<close>

definition both_or_neither :: "QBCredentials \<Rightarrow> bool" where
  "both_or_neither c = ((access_token c = None) = (token_expiry c = None))"

text \<open>The record a refresh at clock \<open>t\<close> makes of the record \<open>c\<close> and the reply \<open>d\<close>.\<close>

definition refreshed :: "platform \<Rightarrow> int \<Rightarrow> QBCredentials \<Rightarrow> json_doc \<Rightarrow> QBCredentials" where
  "refreshed rt t c d =
     c\<lparr>access_token := j_access_token d,
       refresh_token :=
         (if truthy (j_refresh_token d) then j_refresh_token d else refresh_token c),
       token_expiry := Some (Date_iso rt (t + lifetime d * 1000))\<rparr>"

text \<open>
  The records the \<open>i\<close>-th reply of the remote carries for an entity, when that
  reply is a success with a JSON body; \<open>None\<close> when the call fails in any way.
\<close>

definition page :: "world \<Rightarrow> nat \<Rightarrow> string \<Rightarrow> entity_doc list option" where
  "page w i entity =
     (case remote w i of
        Rejects m \<Rightarrow> None
      | Responds r \<Rightarrow>
          if ok r then (case body_json r of Inl m \<Rightarrow> None | Inr d \<Rightarrow> Some (rows d entity))
          else None)"

text \<open>The start positions of successive requests: each page moves it by its length.\<close>

fun positions :: "nat \<Rightarrow> 'a list list \<Rightarrow> nat list" where
  "positions pos [] = []"
| "positions pos (p # ps) = pos # positions (pos + length p) ps"

definition query_requests ::
  "string \<Rightarrow> string \<Rightarrow> string \<Rightarrow> string \<Rightarrow> string \<Rightarrow> num \<Rightarrow> nat list \<Rightarrow> request list" where
  "query_requests apiUrl accessToken entity wc ob mr ps =
     map (\<lambda>p. query_request apiUrl accessToken (query_sql entity wc ob p mr)) ps"

definition refs_requests :: "string \<Rightarrow> string \<Rightarrow> string \<Rightarrow> nat list \<Rightarrow> request list" where
  "refs_requests apiUrl accessToken entityType ps =
     map (\<lambda>p. query_request apiUrl accessToken (refs_sql entityType p)) ps"

text \<open>
  The records that reach the reference map: both fields truthy, and an ID other
  than \<open>__proto__\<close>.
\<close>

definition kept :: "entity_doc \<Rightarrow> bool" where
  "kept ref = (has_both ref \<and> map_of ref ''Id'' \<noteq> Some ''__proto__'')"

text \<open>The result \<open>checkConnection\<close> gives for a failure described by \<open>m\<close>.\<close>

definition failure :: "string \<Rightarrow> check_result" where
  "failure m = \<lparr>connected = False, companyInfo = None, realmId = None, error = Some m\<rparr>"

text \<open>The name a finished \<open>getReferenceMaps\<close> run holds under the key \<open>k\<close>.\<close>

definition lookup_ref ::
  "((js_error + (string \<rightharpoonup> string)) \<times> world) option \<Rightarrow> string \<Rightarrow> string option" where
  "lookup_ref out k =
     (case out of
        None \<Rightarrow> None
      | Some (Inl e, w') \<Rightarrow> None
      | Some (Inr refMap, w') \<Rightarrow> refMap k)"

section \<open>Example inputs\<close>

text \<open>
  A platform that knows three instants, a credentials file whose token expires at
  2023-11-14T23:13:20Z, and worlds around them; the remotes answer every call the
  same way (\<open>always\<close>) or follow a list of replies and then a last one
  (\<open>script\<close>).
\<close>

definition example_platform :: platform where
  "example_platform =
     \<lparr>Date_getTime = (\<lambda>s. if s = ''2023-11-14T22:13:20.000Z'' then Some 1700000000000
                          else if s = ''2023-11-14T23:13:20.000Z'' then Some 1700003600000
                          else if s = ''2023-11-15T00:13:20.000Z'' then Some 1700007200000
                          else None),
      Date_iso = (\<lambda>t. if t = 1700000000000 then ''2023-11-14T22:13:20.000Z''
                      else if t = 1700003600000 then ''2023-11-14T23:13:20.000Z''
                      else if t = 1700007200000 then ''2023-11-15T00:13:20.000Z''
                      else ''1970-01-01T00:00:00.000Z''),
      JSON_stringify = (\<lambda>d. ''{}'')\<rparr>"

definition example_credentials :: QBCredentials where
  "example_credentials =
     \<lparr>client_id = Some ''app'', client_secret = Some ''secret'', realm_id = Some ''9130'',
      access_token = Some ''cached'', refresh_token = Some ''refresh-1'',
      token_expiry = Some ''2023-11-14T23:13:20.000Z''\<rparr>"

definition example_world :: "int \<Rightarrow> QBCredentials \<Rightarrow> (nat \<Rightarrow> reply) \<Rightarrow> world" where
  "example_world t c answers =
     \<lparr>tokenPath = ''/work/.claude/quickbooks-skill.local.json'', clock = t,
      stored = Parsed c, remote = answers, sent = []\<rparr>"

definition always :: "reply \<Rightarrow> nat \<Rightarrow> reply" where
  "always r i = r"

definition script :: "reply list \<Rightarrow> reply \<Rightarrow> nat \<Rightarrow> reply" where
  "script rs r i = (if i < length rs then rs ! i else r)"

definition token_reply :: "int option \<Rightarrow> reply" where
  "token_reply lifetime_s =
     Responds \<lparr>status = 200, statusText = ''OK'', body_text = ''{}'',
       body_json = Inr \<lparr>j_access_token = Some ''fresh'', j_refresh_token = None,
                          j_expires_in = lifetime_s, j_QueryResponse = None,
                          j_members = []\<rparr>\<rparr>"

definition page_reply :: "string \<Rightarrow> entity_doc list \<Rightarrow> reply" where
  "page_reply entity rs =
     Responds \<lparr>status = 200, statusText = ''OK'', body_text = ''{}'',
       body_json = Inr \<lparr>j_access_token = None, j_refresh_token = None,
                          j_expires_in = None, j_QueryResponse = Some [(entity, rs)],
                          j_members = []\<rparr>\<rparr>"

definition status_reply :: "nat \<Rightarrow> string \<Rightarrow> string \<Rightarrow> reply" where
  "status_reply c t b =
     Responds \<lparr>status = c, statusText = t, body_text = b,
       body_json = Inl ''Unexpected end of JSON input''\<rparr>"

definition company_reply :: reply where
  "company_reply =
     Responds \<lparr>status = 200, statusText = ''OK'', body_text = ''{}'',
       body_json = Inr \<lparr>j_access_token = None, j_refresh_token = None,
                         j_expires_in = None, j_QueryResponse = None,
                         j_members = [(''CompanyInfo'', [(''CompanyName'', ''Acme'')])]\<rparr>\<rparr>"

definition no_options :: QueryOptions where
  "no_options =
     \<lparr>start = None, end' = None, queryBy = None, where' = None, maxResults = None\<rparr>"

definition example_entity :: entity_doc where
  "example_entity = [(''Id'', ''7''), (''FullyQualifiedName'', ''Acme'')]"

definition old_customer :: entity_doc where
  "old_customer = [(''Id'', ''1''), (''FullyQualifiedName'', ''Old Name'')]"

definition new_customer :: entity_doc where
  "new_customer = [(''Id'', ''1''), (''FullyQualifiedName'', ''New Name'')]"

definition unnamed_customer :: entity_doc where
  "unnamed_customer = [(''Id'', ''2'')]"

definition proto_customer :: entity_doc where
  "proto_customer = [(''Id'', ''__proto__''), (''FullyQualifiedName'', ''Proto Name'')]"

section \<open>Lemmas on the credential store and on paging\<close>

lemma fetch_Responds:
  "remote w (length (sent w)) = Responds r \<Longrightarrow> fetch rq w = (Inr r, w\<lparr>sent := sent w @ [rq]\<rparr>)"
  by (simp add: fetch_def)

lemma fetch_Rejects:
  "remote w (length (sent w)) = Rejects m \<Longrightarrow>
     fetch rq w = (Inl (TypeError m), w\<lparr>sent := sent w @ [rq]\<rparr>)"
  by (simp add: fetch_def)

lemma loadCredentials_Inr:
  "loadCredentials w = Inr c \<longleftrightarrow> stored w = Parsed c \<and> required_present c"
  by (auto simp: loadCredentials_def readCredentialsFile_def required_present_def
      split: file_state.splits if_splits)

lemma loadCredentials_sent [simp]: "loadCredentials (w\<lparr>sent := s\<rparr>) = loadCredentials w"
  by (simp add: loadCredentials_def readCredentialsFile_def split: file_state.splits)

lemma refresh_success:
  assumes "loadCredentials w = Inr c"
    and "remote w (length (sent w)) = Responds r" and "ok r" and "body_json r = Inr d"
    and "truthy (j_access_token d)"
    and "\<bar>clock w + lifetime d * 1000\<bar> \<le> 8640000000000000"
  shows "refreshAccessToken rt w =
           (Inr (refreshed rt (clock w) c d),
            w\<lparr>sent := sent w @ [token_request c], stored := Parsed (refreshed rt (clock w) c d)\<rparr>)"
  using assms
  by (simp add: refreshAccessToken_def fetch_Responds toISOString_def refreshed_def
      saveCredentials_def Let_def)

lemma refresh_not_ok:
  assumes "loadCredentials w = Inr c"
    and "remote w (length (sent w)) = Responds r" and "\<not> ok r"
  shows "refreshAccessToken rt w =
           (Inl (Error (''Token refresh failed: '' @ dec_nat (status r) @ '' '' @ statusText r
                   @ ''\<newline>'' @ body_text r)),
            w\<lparr>sent := sent w @ [token_request c]\<rparr>)"
  using assms by (simp add: refreshAccessToken_def fetch_Responds)

lemma refresh_sent:
  assumes "loadCredentials w = Inr c"
  shows "sent (snd (refreshAccessToken rt w)) = sent w @ [token_request c]"
  using assms
  by (auto simp: refreshAccessToken_def fetch_def Let_def saveCredentials_def
      split: reply.splits option.splits sum.splits)

lemma page_sent [simp]: "page (w\<lparr>sent := s\<rparr>) i entity = page w i entity"
  by (simp add: page_def)

lemma page_SomeD:
  "page w i entity = Some rs \<Longrightarrow>
     \<exists>r d. remote w i = Responds r \<and> ok r \<and> body_json r = Inr d \<and> rows d entity = rs"
  by (auto simp: page_def split: reply.splits if_splits option.splits sum.splits)

lemma positions_length [simp]: "length (positions pos ps) = length ps"
  by (induction ps arbitrary: pos) auto

lemma positions_append:
  "positions pos (ps @ qs) = positions pos ps @ positions (pos + sum_list (map length ps)) qs"
  by (induction ps arbitrary: pos) (auto simp: add.assoc)


lemma query_loop_full:
  assumes "page w (length (sent w)) entity = Some rs" and "\<not> lt_num (length rs) mr"
  shows "query_loop U T entity wc ob mr acc pos w =
         query_loop U T entity wc ob mr (acc @ rs) (pos + length rs)
           (w\<lparr>sent := sent w @ [query_request U T (query_sql entity wc ob pos mr)]\<rparr>)"
proof -
  from page_SomeD [OF assms(1)] obtain r d where
    "remote w (length (sent w)) = Responds r" "ok r" "body_json r = Inr d" "rows d entity = rs"
    by blast
  with assms(2) show ?thesis
    by (subst query_loop.simps) (simp add: fetch_Responds Let_def)
qed

lemma query_loop_short:
  assumes "page w (length (sent w)) entity = Some rs" and "lt_num (length rs) mr"
  shows "query_loop U T entity wc ob mr acc pos w =
         Some (Inr (acc @ rs),
           w\<lparr>sent := sent w @ [query_request U T (query_sql entity wc ob pos mr)]\<rparr>)"
proof -
  from page_SomeD [OF assms(1)] obtain r d where
    "remote w (length (sent w)) = Responds r" "ok r" "body_json r = Inr d" "rows d entity = rs"
    by blast
  with assms(2) show ?thesis
    by (subst query_loop.simps) (simp add: fetch_Responds Let_def)
qed

lemma query_loop_not_ok:
  assumes "remote w (length (sent w)) = Responds r" and "\<not> ok r"
  shows "query_loop U T entity wc ob mr acc pos w =
         Some (Inl (api_error r),
           w\<lparr>sent := sent w @ [query_request U T (query_sql entity wc ob pos mr)]\<rparr>)"
  using assms by (subst query_loop.simps) (simp add: fetch_Responds)

lemma query_loop_pages:
  assumes "\<forall>i < length ps. page w (length (sent w) + i) entity = Some (ps ! i)
             \<and> \<not> lt_num (length (ps ! i)) mr"
  shows "query_loop U T entity wc ob mr acc pos w =
         query_loop U T entity wc ob mr (acc @ concat ps) (pos + sum_list (map length ps))
           (w\<lparr>sent := sent w @ query_requests U T entity wc ob mr (positions pos ps)\<rparr>)"
  using assms
proof (induction ps arbitrary: w acc pos)
  case Nil
  then show ?case by (simp add: query_requests_def)
next
  case (Cons p ps)
  let ?w1 = "w\<lparr>sent := sent w @ [query_request U T (query_sql entity wc ob pos mr)]\<rparr>"
  from Cons.prems have p: "page w (length (sent w)) entity = Some p" "\<not> lt_num (length p) mr"
    by force+
  have rest: "\<forall>i < length ps. page ?w1 (length (sent ?w1) + i) entity = Some (ps ! i)
             \<and> \<not> lt_num (length (ps ! i)) mr"
  proof (intro allI impI)
    fix i assume "i < length ps"
    then have "Suc i < length (p # ps)" by simp
    from Cons.prems [rule_format, OF this] show
      "page ?w1 (length (sent ?w1) + i) entity = Some (ps ! i) \<and> \<not> lt_num (length (ps ! i)) mr"
      by simp
  qed
  show ?case
    by (simp add: query_loop_full [OF p] Cons.IH [OF rest] query_requests_def add.assoc)
qed

lemma query_loop_step_cases:
  "page w (length (sent w)) entity = None \<Longrightarrow>
     \<exists>err w'. query_loop U T entity wc ob mr acc pos w = Some (Inl err, w')"
  by (subst query_loop.simps)
     (auto simp: page_def fetch_def Let_def split: reply.splits option.splits sum.splits if_splits)

lemma query_loop_never_breaks:
  assumes "query_loop U T entity wc ob mr acc pos w = Some out"
  shows "(\<forall>n. \<not> lt_num n mr) \<longrightarrow> (\<exists>err. fst out = Inl err)
         \<and> (\<exists>i \<ge> length (sent w). page w i entity = None)"
proof (rule query_loop.raw_induct [where P = "\<lambda>U T entity wc ob mr acc pos w out.
         (\<forall>n. \<not> lt_num n mr) \<longrightarrow> (\<exists>err. fst out = Inl err)
         \<and> (\<exists>i \<ge> length (sent w). page w i entity = None)", OF _ assms], goal_cases)
  case (1 loop U T entity wc ob mr acc pos w out)
  show ?case
  proof
    assume nb: "\<forall>n. \<not> lt_num n mr"
    show "(\<exists>err. fst out = Inl err) \<and> (\<exists>i \<ge> length (sent w). page w i entity = None)"
    proof (cases "page w (length (sent w)) entity")
      case None
      with 1(2) show ?thesis
        by (auto simp: page_def fetch_def Let_def split: reply.splits option.splits sum.splits if_splits)
    next
      case (Some rs)
      from page_SomeD [OF Some] obtain r d where
        r: "remote w (length (sent w)) = Responds r" "ok r" "body_json r = Inr d"
           "rows d entity = rs"
        by blast
      let ?w1 = "w\<lparr>sent := sent w @ [query_request U T (query_sql entity wc ob pos mr)]\<rparr>"
      from 1(2) r nb have "loop U T entity wc ob mr (acc @ rs) (pos + length rs) ?w1 = Some out"
        by (simp add: fetch_Responds Let_def)
      from 1(1) [OF this] nb obtain i where
        "\<exists>err. fst out = Inl err" "i \<ge> length (sent ?w1)" "page ?w1 i entity = None"
        by blast
      then show ?thesis
        by (auto intro!: exI [of _ i])
    qed
  qed
qed

lemma query_loop_terminates:
  assumes "page w (length (sent w) + k) entity = Some rs" and "lt_num (length rs) mr"
  shows "\<exists>out. query_loop U T entity wc ob mr acc pos w = Some out"
  using assms
proof (induction k arbitrary: w acc pos)
  case 0
  then show ?case by (simp add: query_loop_short)
next
  case (Suc k)
  show ?case
  proof (cases "page w (length (sent w)) entity")
    case None
    from query_loop_step_cases [OF this] show ?thesis by blast
  next
    case (Some p)
    show ?thesis
    proof (cases "lt_num (length p) mr")
      case True
      with Some show ?thesis by (simp add: query_loop_short)
    next
      case False
      let ?w1 = "w\<lparr>sent := sent w @ [query_request U T (query_sql entity wc ob pos mr)]\<rparr>"
      from Suc.prems have "page ?w1 (length (sent ?w1) + k) entity = Some rs" by simp
      from Suc.IH [OF this Suc.prems(2)] show ?thesis
        by (simp add: query_loop_full [OF Some False])
    qed
  qed
qed

lemma truthy_Some: "truthy v \<Longrightarrow> v = Some (str v)"
  by (cases v) (auto simp: truthy_def str_def)

lemma add_refs_Cons:
  "add_refs (ref # refs) m =
     add_refs refs
       (if kept ref then m(str (map_of ref ''Id'') \<mapsto> str (map_of ref ''FullyQualifiedName''))
        else m)"
  by (auto simp: kept_def assign_def has_both_def dest: truthy_Some)

declare add_refs.simps(2) [simp del]

lemma kept_has_both: "kept r \<Longrightarrow> has_both r"
  by (simp add: kept_def)

lemma kept_Id:
  "kept r \<Longrightarrow> map_of r ''Id'' = Some (str (map_of r ''Id''))
     \<and> map_of r ''FullyQualifiedName'' = Some (str (map_of r ''FullyQualifiedName''))
     \<and> str (map_of r ''Id'') \<noteq> [] \<and> str (map_of r ''FullyQualifiedName'') \<noteq> []
     \<and> str (map_of r ''Id'') \<noteq> ''__proto__''"
  by (auto simp: kept_def has_both_def truthy_def str_def split: option.splits)

lemma add_refs_append: "add_refs (xs @ ys) m = add_refs ys (add_refs xs m)"
  by (induction xs arbitrary: m) (simp_all add: add_refs_Cons)

lemma add_refs_filter: "add_refs xs m = add_refs (filter kept xs) m"
  by (induction xs arbitrary: m) (simp_all add: add_refs_Cons)

lemma add_refs_untouched:
  "\<forall>r \<in> set xs. kept r \<longrightarrow> map_of r ''Id'' \<noteq> Some k \<Longrightarrow> add_refs xs m k = m k"
proof (induction xs arbitrary: m)
  case Nil
  then show ?case by simp
next
  case (Cons r xs)
  then show ?case
    by (auto simp: add_refs_Cons dest: kept_Id)
qed

lemma add_refs_entry:
  "add_refs xs m k = Some v \<Longrightarrow>
     m k = Some v \<or> (\<exists>r \<in> set xs. kept r \<and> map_of r ''Id'' = Some k
                        \<and> map_of r ''FullyQualifiedName'' = Some v)"
proof (induction xs arbitrary: m)
  case Nil
  then show ?case by simp
next
  case (Cons r xs)
  from Cons.IH [OF Cons.prems [unfolded add_refs_Cons]] show ?case
    by (auto split: if_splits dest: kept_Id)
qed

lemma dom_add_refs:
  "dom (add_refs xs m) = dom m \<union> {str (map_of r ''Id'') | r. r \<in> set xs \<and> kept r}"
  by (induction xs arbitrary: m) (auto simp: add_refs_Cons)

lemma add_refs_last_wins:
  assumes "kept r"
    and "\<forall>r' \<in> set post. kept r' \<longrightarrow> map_of r' ''Id'' \<noteq> map_of r ''Id''"
  shows "add_refs (pre @ r # post) m (str (map_of r ''Id'')) = map_of r ''FullyQualifiedName''"
proof -
  from kept_Id [OF assms(1)] have id: "map_of r ''Id'' = Some (str (map_of r ''Id''))"
    and nm: "map_of r ''FullyQualifiedName'' = Some (str (map_of r ''FullyQualifiedName''))"
    by simp_all
  from assms(2) id
  have "\<forall>r' \<in> set post. kept r' \<longrightarrow> map_of r' ''Id'' \<noteq> Some (str (map_of r ''Id''))"
    by simp
  from add_refs_untouched [OF this] assms(1) nm show ?thesis
    by (simp add: add_refs_append add_refs_Cons)
qed

lemma card_dom_add_refs: "card (dom (add_refs xs Map.empty)) \<le> length xs"
proof -
  have "dom (add_refs xs Map.empty) \<subseteq> (\<lambda>r. str (map_of r ''Id'')) ` set xs"
    by (auto simp: dom_add_refs)
  then have "card (dom (add_refs xs Map.empty)) \<le> card ((\<lambda>r. str (map_of r ''Id'')) ` set xs)"
    by (intro card_mono) auto
  also have "\<dots> \<le> card (set xs)" by (rule card_image_le) simp
  also have "\<dots> \<le> length xs" by (rule card_length)
  finally show ?thesis .
qed

lemma refs_loop_full:
  assumes "page w (length (sent w)) entityType = Some rs"
    and "\<not> length rs < MAX_RESULTS_PER_PAGE"
  shows "refs_loop U T entityType m pos w =
         refs_loop U T entityType (add_refs rs m) (pos + length rs)
           (w\<lparr>sent := sent w @ [query_request U T (refs_sql entityType pos)]\<rparr>)"
proof -
  from page_SomeD [OF assms(1)] obtain r d where
    "remote w (length (sent w)) = Responds r" "ok r" "body_json r = Inr d"
    "rows d entityType = rs"
    by blast
  with assms(2) show ?thesis
    by (subst refs_loop.simps) (auto simp: fetch_Responds Let_def MAX_RESULTS_PER_PAGE_def)
qed

lemma refs_loop_short:
  assumes "page w (length (sent w)) entityType = Some rs"
    and "length rs < MAX_RESULTS_PER_PAGE"
  shows "refs_loop U T entityType m pos w =
         Some (Inr (add_refs rs m),
           w\<lparr>sent := sent w @ [query_request U T (refs_sql entityType pos)]\<rparr>)"
proof -
  from page_SomeD [OF assms(1)] obtain r d where
    "remote w (length (sent w)) = Responds r" "ok r" "body_json r = Inr d"
    "rows d entityType = rs"
    by blast
  with assms(2) show ?thesis
    by (subst refs_loop.simps) (auto simp: fetch_Responds Let_def)
qed

lemma refs_loop_pages:
  assumes "\<forall>i < length ps. page w (length (sent w) + i) entityType = Some (ps ! i)
             \<and> \<not> length (ps ! i) < MAX_RESULTS_PER_PAGE"
  shows "refs_loop U T entityType m pos w =
         refs_loop U T entityType (add_refs (concat ps) m) (pos + sum_list (map length ps))
           (w\<lparr>sent := sent w @ refs_requests U T entityType (positions pos ps)\<rparr>)"
  using assms
proof (induction ps arbitrary: w m pos)
  case Nil
  then show ?case by (simp add: refs_requests_def)
next
  case (Cons p ps)
  let ?w1 = "w\<lparr>sent := sent w @ [query_request U T (refs_sql entityType pos)]\<rparr>"
  from Cons.prems have p: "page w (length (sent w)) entityType = Some p"
    "\<not> length p < MAX_RESULTS_PER_PAGE"
    by force+
  have rest: "\<forall>i < length ps. page ?w1 (length (sent ?w1) + i) entityType = Some (ps ! i)
             \<and> \<not> length (ps ! i) < MAX_RESULTS_PER_PAGE"
  proof (intro allI impI)
    fix i assume "i < length ps"
    then have "Suc i < length (p # ps)" by simp
    from Cons.prems [rule_format, OF this] show
      "page ?w1 (length (sent ?w1) + i) entityType = Some (ps ! i)
       \<and> \<not> length (ps ! i) < MAX_RESULTS_PER_PAGE"
      by simp
  qed
  show ?case
    by (simp add: refs_loop_full [OF p] Cons.IH [OF rest] refs_requests_def add.assoc
        add_refs_append)
qed

section \<open>Date formatting\<close>

text \<open>
  C3 (as amended). A date that contains \<open>T\<close>, the test for a time component, is
  put between single quotes as it is, whether it bounds the start or the end; a
  date without \<open>T\<close> gets \<open>T00:00:00Z\<close> as a start and \<open>T23:59:59Z\<close> as an end,
  between single quotes.
\<close>

theorem formatDateForQuery_spec:
  "(CHR ''T'' \<in> set date \<longrightarrow>
      formatDateForQuery date isEnd = [CHR 0x27] @ date @ [CHR 0x27])
   \<and> (CHR ''T'' \<notin> set date \<longrightarrow>
      formatDateForQuery date False = [CHR 0x27] @ date @ ''T00:00:00Z'' @ [CHR 0x27]
      \<and> formatDateForQuery date True = [CHR 0x27] @ date @ ''T23:59:59Z'' @ [CHR 0x27])"
  by (simp add: formatDateForQuery_def)

theorem formatDateForQuery_spec_witness:
  "formatDateForQuery ''2024-01-01T10:30:00Z'' True
     = [CHR 0x27] @ ''2024-01-01T10:30:00Z'' @ [CHR 0x27]
   \<and> formatDateForQuery ''2024-01-01'' False
     = [CHR 0x27] @ ''2024-01-01T00:00:00Z'' @ [CHR 0x27]
   \<and> formatDateForQuery ''2024-01-01'' True
     = [CHR 0x27] @ ''2024-01-01T23:59:59Z'' @ [CHR 0x27]"
  using formatDateForQuery_spec [of "''2024-01-01T10:30:00Z''" True]
    formatDateForQuery_spec [of "''2024-01-01''" True]
  by simp

text \<open>
  The claim as stated fails: the formatted text is not the input, and formatting
  it again changes it once more.
\<close>

theorem formatDateForQuery_not_idempotent:
  "formatDateForQuery ''2024-01-01T10:30:00Z'' False \<noteq> ''2024-01-01T10:30:00Z''
   \<and> formatDateForQuery (formatDateForQuery ''2024-01-01T10:30:00Z'' False) False
       \<noteq> formatDateForQuery ''2024-01-01T10:30:00Z'' False"
  by (simp add: formatDateForQuery_def)

section \<open>The token policy\<close>

lemma getValidAccessToken_cached:
  assumes "loadCredentials w = Inr c" and "still_valid rt w c"
  shows "getValidAccessToken rt w = (Inr (str (access_token c), str (realm_id c)), w)"
  using assms by (simp add: getValidAccessToken_def)

lemma getValidAccessToken_stale:
  assumes "loadCredentials w = Inr c" and "\<not> still_valid rt w c"
  shows "getValidAccessToken rt w =
     (case refreshAccessToken rt w of
        (Inl e, w') \<Rightarrow> (Inl e, w')
      | (Inr c', w') \<Rightarrow>
          if \<not> truthy (access_token c')
          then (Inl (Error ''Failed to get access token after refresh''), w')
          else (Inr (str (access_token c'), str (realm_id c')), w'))"
  using assms by (simp add: getValidAccessToken_def)

lemma getValidAccessToken_stale_sent:
  assumes "loadCredentials w = Inr c" and "\<not> still_valid rt w c"
  shows "sent (snd (getValidAccessToken rt w)) = sent w @ [token_request c]"
  using refresh_sent [OF assms(1), of rt]
  by (auto simp: getValidAccessToken_stale [OF assms] split: prod.splits sum.splits)

lemma still_valid_iff:
  "still_valid rt w c \<longleftrightarrow>
     (\<exists>tok s t. access_token c = Some tok \<and> tok \<noteq> [] \<and> token_expiry c = Some s \<and> s \<noteq> []
        \<and> Date_getTime rt s = Some t \<and> t - clock w > 5 * 60 * 1000)"
  by (auto simp: still_valid_def truthy_def str_def split: option.splits)

text \<open>
  C1. For every credential record that loads: when it holds a non-empty
  \<open>access_token\<close> and its \<open>token_expiry\<close> reads as an instant more than five minutes
  after the clock, \<open>getValidAccessToken\<close> returns that token and the realm id and
  leaves the world as it was, so it sends no request. In every other case (the
  token or the expiry missing or empty, the expiry not a date, or five minutes or
  less ahead) exactly one request is sent, the token request of the refresh, and
  when the endpoint answers it with a success that carries a non-empty
  \<open>access_token\<close>, that token is returned with the realm id and the refreshed
  record is stored.
\<close>

theorem getValidAccessToken_policy:
  assumes "loadCredentials w = Inr c"
  shows
    "(access_token c = Some tok \<and> tok \<noteq> [] \<and> token_expiry c = Some s \<and> s \<noteq> []
        \<and> Date_getTime rt s = Some t \<and> t - clock w > 5 * 60 * 1000
      \<longrightarrow> getValidAccessToken rt w = (Inr (tok, str (realm_id c)), w))
     \<and> (\<not> truthy (access_token c) \<or> \<not> truthy (token_expiry c)
        \<or> Date_getTime rt (str (token_expiry c)) = None
        \<or> (\<exists>t'. Date_getTime rt (str (token_expiry c)) = Some t' \<and> t' - clock w \<le> 5 * 60 * 1000)
      \<longrightarrow> sent (snd (getValidAccessToken rt w)) = sent w @ [token_request c]
          \<and> (remote w (length (sent w)) = Responds r \<and> ok r \<and> body_json r = Inr d
               \<and> j_access_token d = Some tok' \<and> tok' \<noteq> []
               \<and> \<bar>clock w + lifetime d * 1000\<bar> \<le> 8640000000000000
             \<longrightarrow> getValidAccessToken rt w =
                   (Inr (tok', str (realm_id c)),
                    w\<lparr>sent := sent w @ [token_request c],
                      stored := Parsed (refreshed rt (clock w) c d)\<rparr>)))"
proof (intro conjI impI)
  assume "access_token c = Some tok \<and> tok \<noteq> [] \<and> token_expiry c = Some s \<and> s \<noteq> []
        \<and> Date_getTime rt s = Some t \<and> t - clock w > 5 * 60 * 1000"
  then have "still_valid rt w c" and "str (access_token c) = tok"
    by (auto simp: still_valid_iff str_def)
  with getValidAccessToken_cached [OF assms] show
    "getValidAccessToken rt w = (Inr (tok, str (realm_id c)), w)"
    by simp
next
  assume stale: "\<not> truthy (access_token c) \<or> \<not> truthy (token_expiry c)
        \<or> Date_getTime rt (str (token_expiry c)) = None
        \<or> (\<exists>t'. Date_getTime rt (str (token_expiry c)) = Some t' \<and> t' - clock w \<le> 5 * 60 * 1000)"
  then have ns: "\<not> still_valid rt w c"
    by (auto simp: still_valid_def)
  from getValidAccessToken_stale_sent [OF assms ns]
  show "sent (snd (getValidAccessToken rt w)) = sent w @ [token_request c]" .
  assume reply: "remote w (length (sent w)) = Responds r \<and> ok r \<and> body_json r = Inr d
               \<and> j_access_token d = Some tok' \<and> tok' \<noteq> []
               \<and> \<bar>clock w + lifetime d * 1000\<bar> \<le> 8640000000000000"
  then have "truthy (j_access_token d)" by (simp add: truthy_def)
  with reply have "refreshAccessToken rt w =
           (Inr (refreshed rt (clock w) c d),
            w\<lparr>sent := sent w @ [token_request c], stored := Parsed (refreshed rt (clock w) c d)\<rparr>)"
    by (intro refresh_success [OF assms]) auto
  with reply show "getValidAccessToken rt w =
                   (Inr (tok', str (realm_id c)),
                    w\<lparr>sent := sent w @ [token_request c],
                      stored := Parsed (refreshed rt (clock w) c d)\<rparr>)"
    by (simp add: getValidAccessToken_stale [OF assms ns] refreshed_def truthy_def str_def)
qed

theorem getValidAccessToken_policy_witness:
  "getValidAccessToken example_platform
     (example_world 1700000000000 example_credentials (always (token_reply (Some 3600))))
   = (Inr (''cached'', ''9130''),
      example_world 1700000000000 example_credentials (always (token_reply (Some 3600))))
   \<and> fst (getValidAccessToken example_platform
       (example_world 1700003600000 example_credentials (always (token_reply (Some 3600)))))
     = Inr (''fresh'', ''9130'')
   \<and> sent (snd (getValidAccessToken example_platform
       (example_world 1700003600000 example_credentials (always (token_reply (Some 3600))))))
     = [token_request example_credentials]"
proof -
  let ?R = "always (token_reply (Some 3600))"
  let ?w = "example_world 1700000000000 example_credentials ?R"
  let ?v = "example_world 1700003600000 example_credentials ?R"
  have lw: "loadCredentials ?w = Inr example_credentials"
    by (simp add: loadCredentials_Inr example_world_def always_def required_present_def
        example_credentials_def truthy_def)
  have lv: "loadCredentials ?v = Inr example_credentials"
    by (simp add: loadCredentials_Inr example_world_def always_def required_present_def
        example_credentials_def truthy_def)
  have a: "getValidAccessToken example_platform ?w = (Inr (''cached'', ''9130''), ?w)"
    using getValidAccessToken_policy [OF lw, of "''cached''" "''2023-11-14T23:13:20.000Z''"
        example_platform 1700003600000]
    by (simp add: example_credentials_def example_platform_def example_world_def always_def str_def)
  have b: "fst (getValidAccessToken example_platform ?v) = Inr (''fresh'', ''9130'')
     \<and> sent (snd (getValidAccessToken example_platform ?v)) = [token_request example_credentials]"
    using getValidAccessToken_policy [OF lv, of _ _ example_platform _
        "\<lparr>status = 200, statusText = ''OK'', body_text = ''{}'',
       body_json = Inr \<lparr>j_access_token = Some ''fresh'', j_refresh_token = None,
                          j_expires_in = Some 3600, j_QueryResponse = None,
                          j_members = []\<rparr>\<rparr>"
        "\<lparr>j_access_token = Some ''fresh'', j_refresh_token = None,
                          j_expires_in = Some 3600, j_QueryResponse = None,
                          j_members = []\<rparr>" "''fresh''"]
    by (simp add: example_credentials_def example_platform_def example_world_def always_def str_def
        truthy_def token_reply_def ok_def lifetime_def)
  from a b show ?thesis by simp
qed

section \<open>Refreshing the token\<close>

text \<open>
  C5 (as amended). For every successful reply of the token endpoint with a
  non-empty \<open>access_token\<close>, and a lifetime of \<open>expires_in\<close> seconds, or 3600
  when \<open>expires_in\<close> is absent or zero, that keeps the expiry inside the range of
  \<open>Date\<close>: \<open>refreshAccessToken\<close> returns the record with \<open>token_expiry\<close> printed
  from clock + lifetime, the new \<open>access_token\<close>, the \<open>refresh_token\<close> replaced
  only by a non-empty one, the other fields as they were; it has stored that
  record, which loads back, and has sent one request.
\<close>

theorem refreshAccessToken_success:
  assumes "loadCredentials w = Inr c"
    and "remote w (length (sent w)) = Responds r" and "ok r" and "body_json r = Inr d"
    and "j_access_token d = Some tok" and "tok \<noteq> []"
    and "secs = (case j_expires_in d of None \<Rightarrow> 3600 | Some n \<Rightarrow> if n = 0 then 3600 else n)"
    and "\<bar>clock w + secs * 1000\<bar> \<le> 8640000000000000"
  shows "\<exists>c' w'. refreshAccessToken rt w = (Inr c', w')
           \<and> token_expiry c' = Some (Date_iso rt (clock w + secs * 1000))
           \<and> access_token c' = Some tok
           \<and> refresh_token c' =
               (if truthy (j_refresh_token d) then j_refresh_token d else refresh_token c)
           \<and> client_id c' = client_id c \<and> client_secret c' = client_secret c
           \<and> realm_id c' = realm_id c
           \<and> stored w' = Parsed c' \<and> loadCredentials w' = Inr c'
           \<and> sent w' = sent w @ [token_request c]"
proof -
  let ?c' = "refreshed rt (clock w) c d"
  let ?w' = "w\<lparr>sent := sent w @ [token_request c], stored := Parsed ?c'\<rparr>"
  have secs: "secs = lifetime d"
    using assms(7) by (simp add: lifetime_def)
  have "truthy (j_access_token d)"
    using assms(5,6) by (simp add: truthy_def)
  with assms secs have run: "refreshAccessToken rt w = (Inr ?c', ?w')"
    by (intro refresh_success) auto
  from assms(1) have req: "required_present c"
    by (simp add: loadCredentials_Inr)
  then have "required_present ?c'"
    by (simp add: required_present_def refreshed_def)
  then have "loadCredentials ?w' = Inr ?c'"
    by (simp add: loadCredentials_Inr)
  with run assms(5) secs show ?thesis
    by (simp add: refreshed_def)
qed

theorem refreshAccessToken_success_witness:
  "\<exists>w'. refreshAccessToken example_platform
       (example_world 1700000000000 example_credentials (always (token_reply (Some 7200))))
     = (Inr (example_credentials\<lparr>access_token := Some ''fresh'',
               token_expiry := Some ''2023-11-15T00:13:20.000Z''\<rparr>), w')
     \<and> stored w' = Parsed (example_credentials\<lparr>access_token := Some ''fresh'',
               token_expiry := Some ''2023-11-15T00:13:20.000Z''\<rparr>)
     \<and> sent w' = [token_request example_credentials]"
proof -
  let ?w = "example_world 1700000000000 example_credentials (always (token_reply (Some 7200)))"
  let ?d = "\<lparr>j_access_token = Some ''fresh'', j_refresh_token = None,
             j_expires_in = Some 7200, j_QueryResponse = None, j_members = []\<rparr>"
  let ?r = "\<lparr>status = 200, statusText = ''OK'', body_text = ''{}'', body_json = Inr ?d\<rparr>"
  have l: "loadCredentials ?w = Inr example_credentials"
    by (simp add: loadCredentials_Inr example_world_def always_def required_present_def
        example_credentials_def truthy_def)
  have r: "remote ?w (length (sent ?w)) = Responds ?r"
    by (simp add: example_world_def always_def token_reply_def)
  have okr: "ok ?r" by (simp add: ok_def)
  have s: "(7200::int) = (case j_expires_in ?d of None \<Rightarrow> 3600
                          | Some n \<Rightarrow> if n = 0 then 3600 else n)"
    by simp
  have b: "\<bar>clock ?w + 7200 * 1000\<bar> \<le> 8640000000000000"
    by (simp add: example_world_def always_def)
  from refreshAccessToken_success [OF l r okr _ _ _ s b, of "''fresh''" example_platform]
  obtain c' w' where
    run: "refreshAccessToken example_platform ?w = (Inr c', w')"
    and f: "token_expiry c' = Some (Date_iso example_platform (clock ?w + 7200 * 1000))"
      "access_token c' = Some ''fresh''"
      "refresh_token c' = refresh_token example_credentials"
      "client_id c' = client_id example_credentials"
      "client_secret c' = client_secret example_credentials"
      "realm_id c' = realm_id example_credentials"
    and st: "stored w' = Parsed c'" "sent w' = sent ?w @ [token_request example_credentials]"
    by (auto simp: truthy_def)
  from f have "c' = example_credentials\<lparr>access_token := Some ''fresh'',
               token_expiry := Some ''2023-11-15T00:13:20.000Z''\<rparr>"
    by (cases c') (simp add: example_credentials_def example_platform_def example_world_def always_def)
  with run st show ?thesis
    by (simp add: example_world_def always_def)
qed

text \<open>
  The claim as stated fails for a reported lifetime of zero: the expiry is an hour
  after the clock, not the clock itself. It fails also for a lifetime that leaves
  the range of \<open>Date\<close>: the refresh then throws.
\<close>

theorem refreshAccessToken_zero_lifetime:
  "fst (refreshAccessToken example_platform
          (example_world 1700000000000 example_credentials (always (token_reply (Some 0)))))
     = Inr (example_credentials\<lparr>access_token := Some ''fresh'',
              token_expiry := Some ''2023-11-14T23:13:20.000Z''\<rparr>)
   \<and> Date_iso example_platform (1700000000000 + 0 * 1000) = ''2023-11-14T22:13:20.000Z''
   \<and> fst (refreshAccessToken example_platform
          (example_world 1700000000000 example_credentials
             (always (token_reply (Some 10000000000000000)))))
     = Inl (RangeError ''Invalid time value'')"
  by (simp add: refreshAccessToken_def loadCredentials_def readCredentialsFile_def
      example_world_def always_def example_credentials_def example_platform_def token_reply_def
      truthy_def str_def fetch_def ok_def lifetime_def toISOString_def saveCredentials_def
      Let_def)

text \<open>
  C7. For every record with both or neither of \<open>access_token\<close> and
  \<open>token_expiry\<close> and with the four required fields present: a refresh from a
  file holding it either fails and leaves the file as it was, or returns and
  stores a record that has both optional fields and the four required ones; and
  \<open>saveCredentials\<close> stores the record as it is, so that it loads back unchanged.
  Every record that \<open>loadCredentials\<close> returns has the four required fields.
\<close>

theorem credentials_invariant:
  assumes "both_or_neither c" and "required_present c"
  shows "(stored w = Parsed c \<longrightarrow>
            (case refreshAccessToken rt w of
               (Inl e, w') \<Rightarrow> stored w' = Parsed c
             | (Inr c', w') \<Rightarrow>
                 both_or_neither c' \<and> access_token c' \<noteq> None \<and> token_expiry c' \<noteq> None
                 \<and> required_present c' \<and> stored w' = Parsed c'))
         \<and> stored (saveCredentials c w) = Parsed c
         \<and> loadCredentials (saveCredentials c w) = Inr c
         \<and> (loadCredentials w = Inr c0 \<longrightarrow> required_present c0)"
proof (intro conjI impI)
  assume "loadCredentials w = Inr c0"
  then show "required_present c0"
    by (simp add: loadCredentials_Inr)
next
  assume st: "stored w = Parsed c"
  with assms(2) have l: "loadCredentials w = Inr c"
    by (simp add: loadCredentials_Inr)
  show "case refreshAccessToken rt w of
               (Inl e, w') \<Rightarrow> stored w' = Parsed c
             | (Inr c', w') \<Rightarrow>
                 both_or_neither c' \<and> access_token c' \<noteq> None \<and> token_expiry c' \<noteq> None
                 \<and> required_present c' \<and> stored w' = Parsed c'"
    using assms(2) st
    by (auto simp: refreshAccessToken_def l fetch_def Let_def saveCredentials_def
        both_or_neither_def required_present_def truthy_def toISOString_def
        split: reply.splits option.splits sum.splits if_splits)
next
  show "stored (saveCredentials c w) = Parsed c"
    by (simp add: saveCredentials_def)
  with assms(2) show "loadCredentials (saveCredentials c w) = Inr c"
    by (simp add: loadCredentials_Inr)
qed

theorem credentials_invariant_witness:
  "both_or_neither example_credentials \<and> required_present example_credentials
   \<and> (\<exists>c' w'. refreshAccessToken example_platform
         (example_world 1700000000000 example_credentials (always (token_reply None)))
           = (Inr c', w')
         \<and> both_or_neither c' \<and> required_present c' \<and> stored w' = Parsed c')
   \<and> loadCredentials (saveCredentials example_credentials
         (example_world 0 example_credentials (always (Rejects ''offline''))))
       = Inr example_credentials"
proof -
  let ?w = "example_world 1700000000000 example_credentials (always (token_reply None))"
  have a: "both_or_neither example_credentials" "required_present example_credentials"
    by (simp_all add: both_or_neither_def required_present_def example_credentials_def
        truthy_def)
  have st: "stored ?w = Parsed example_credentials"
    by (simp add: example_world_def always_def)
  have run: "\<exists>c' w'. refreshAccessToken example_platform ?w = (Inr c', w')"
    by (simp add: refreshAccessToken_def loadCredentials_def readCredentialsFile_def
      example_world_def always_def example_credentials_def token_reply_def
      truthy_def str_def fetch_def ok_def lifetime_def toISOString_def saveCredentials_def
      Let_def)
  from credentials_invariant [OF a, of ?w example_platform] st run
  have "\<exists>c' w'. refreshAccessToken example_platform ?w = (Inr c', w')
         \<and> both_or_neither c' \<and> required_present c' \<and> stored w' = Parsed c'"
    by auto
  with a credentials_invariant [OF a,
      of "example_world 0 example_credentials (always (Rejects ''offline''))" example_platform]
  show ?thesis by simp
qed

section \<open>Pagination\<close>

lemma query_unfold:
  assumes "getValidAccessToken rt w = (Inr (accessToken, rid), w1)"
  shows "query rt entity options w =
         query_loop (getApiUrl rid) accessToken entity (whereClause options) (orderBy entity)
           (case maxResults options of None \<Rightarrow> Num 1000 | Some m \<Rightarrow> m) [] 1 w1"
  using assms by (simp add: query_def MAX_RESULTS_PER_PAGE_def split: option.splits)

lemma query_paged:
  assumes tok: "getValidAccessToken rt w = (Inr (accessToken, rid), w1)"
    and mr: "mr = (case maxResults options of None \<Rightarrow> Num 1000 | Some m \<Rightarrow> m)"
    and full: "\<forall>i < length ps. page w1 (length (sent w1) + i) entity = Some (ps ! i)
                 \<and> \<not> lt_num (length (ps ! i)) mr"
    and short: "page w1 (length (sent w1) + length ps) entity = Some final"
      "lt_num (length final) mr"
  shows "query rt entity options w =
         Some (Inr (concat ps @ final),
           w1\<lparr>sent := sent w1 @ query_requests (getApiUrl rid) accessToken entity
                   (whereClause options) (orderBy entity) mr (positions 1 (ps @ [final]))\<rparr>)"
proof -
  let ?U = "getApiUrl rid" and ?wc = "whereClause options" and ?ob = "orderBy entity"
  let ?w2 = "w1\<lparr>sent := sent w1 @ query_requests ?U accessToken entity ?wc ?ob mr
                 (positions 1 ps)\<rparr>"
  have "query rt entity options w = query_loop ?U accessToken entity ?wc ?ob mr [] 1 w1"
    using query_unfold [OF tok] mr by simp
  also have "\<dots> = query_loop ?U accessToken entity ?wc ?ob mr (concat ps)
                     (1 + sum_list (map length ps)) ?w2"
    using query_loop_pages [OF full, of ?U accessToken ?wc ?ob "[]" 1] by simp
  also have "\<dots> = Some (Inr (concat ps @ final),
      ?w2\<lparr>sent := sent ?w2 @ [query_request ?U accessToken
               (query_sql entity ?wc ?ob (1 + sum_list (map length ps)) mr)]\<rparr>)"
    using short by (intro query_loop_short) (simp_all add: query_requests_def)
  finally show ?thesis
    by (simp add: positions_append query_requests_def)
qed


lemma example_world_token:
  "getValidAccessToken example_platform (example_world 1700000000000 example_credentials R)
   = (Inr (''cached'', ''9130''), example_world 1700000000000 example_credentials R)"
  by (simp add: getValidAccessToken_def loadCredentials_def readCredentialsFile_def
      still_valid_def example_world_def example_credentials_def example_platform_def
      truthy_def str_def)

lemma page_script:
  "page (example_world t c (script rs r)) i entity =
     page (example_world t c (always (if i < length rs then rs ! i else r))) 0 entity"
  by (simp add: page_def example_world_def script_def always_def)

lemma page_page_reply:
  "page (example_world t c (always (page_reply entity rs))) i entity = Some rs"
  by (simp add: page_def example_world_def always_def page_reply_def ok_def rows_def)


section \<open>Ordering\<close>

lemma query_loop_sent:
  assumes "query_loop U T entity wc ob mr acc pos w = Some out"
  shows "\<exists>ps. sent (snd out) = sent w @ query_requests U T entity wc ob mr (pos # ps)"
proof (rule query_loop.raw_induct [where P = "\<lambda>U T entity wc ob mr acc pos w out.
         \<exists>ps. sent (snd out) = sent w @ query_requests U T entity wc ob mr (pos # ps)",
         OF _ assms], goal_cases)
  case (1 loop U T entity wc ob mr acc pos w out)
  let ?rq = "query_request U T (query_sql entity wc ob pos mr)"
  let ?w1 = "w\<lparr>sent := sent w @ [?rq]\<rparr>"
  show ?case
  proof (cases "page w (length (sent w)) entity")
    case None
    with 1(2) have "sent (snd out) = sent w @ [?rq]"
      by (auto simp: page_def fetch_def Let_def split: reply.splits sum.splits if_splits)
    then show ?thesis
      by (intro exI [of _ "[]"]) (simp add: query_requests_def)
  next
    case (Some rs)
    from page_SomeD [OF Some] obtain r d where
      r: "remote w (length (sent w)) = Responds r" "ok r" "body_json r = Inr d"
         "rows d entity = rs"
      by blast
    show ?thesis
    proof (cases "lt_num (length rs) mr")
      case True
      with 1(2) r have "sent (snd out) = sent w @ [?rq]"
        by (auto simp: fetch_Responds Let_def)
      then show ?thesis
        by (intro exI [of _ "[]"]) (simp add: query_requests_def)
    next
      case False
      with 1(2) r have "loop U T entity wc ob mr (acc @ rs) (pos + length rs) ?w1 = Some out"
        by (simp add: fetch_Responds Let_def)
      from 1(1) [OF this] obtain ps where
        "sent (snd out) = sent ?w1 @ query_requests U T entity wc ob mr ((pos + length rs) # ps)"
        by blast
      then show ?thesis
        by (intro exI [of _ "(pos + length rs) # ps"]) (simp add: query_requests_def)
    qed
  qed
qed

text \<open>
  C4. Whenever \<open>query\<close> returns, with records or with an error, it has sent at
  least one request, and the SQL text of every request it has sent holds,
  between the WHERE clause and the start position, the ORDER BY clause of the
  entity: transaction date descending, then ID descending, exactly when the entity
  is one of the ten transaction entities, and ID descending for every other
  entity name.
\<close>

theorem query_order_by:
  assumes "getValidAccessToken rt w = (Inr (accessToken, rid), w1)"
    and "mr = (case maxResults options of None \<Rightarrow> Num 1000 | Some m \<Rightarrow> m)"
    and "query rt entity options w = Some (out, w')"
  shows "(\<exists>ps. sent w' = sent w1 @
            map (\<lambda>p. \<lparr>http_method = ''POST'', url = getApiUrl rid,
                       authorization = Bearer accessToken, accept = ''application/json'',
                       content_type = Some ''application/text'',
                       payload = Text (''SELECT * FROM '' @ entity @ '' ''
                         @ whereClause options @ '' ''
                         @ (if entity \<in> {''Invoice'', ''Bill'', ''Purchase'', ''Deposit'',
                                         ''Payment'', ''TimeActivity'', ''Estimate'',
                                         ''SalesReceipt'', ''CreditMemo'', ''JournalEntry''}
                            then ''ORDER BY TxnDate DESC, Id DESC''
                            else ''ORDER BY Id DESC'')
                         @ '' STARTPOSITION '' @ dec_nat p
                         @ '' MAXRESULTS '' @ dec_num mr)\<rparr>)
              (1 # ps))
         \<and> (orderBy entity = ''ORDER BY TxnDate DESC, Id DESC'') =
              (entity \<in> {''Invoice'', ''Bill'', ''Purchase'', ''Deposit'', ''Payment'',
                         ''TimeActivity'', ''Estimate'', ''SalesReceipt'', ''CreditMemo'',
                         ''JournalEntry''})
         \<and> (entity \<notin> {''Invoice'', ''Bill'', ''Purchase'', ''Deposit'', ''Payment'',
                         ''TimeActivity'', ''Estimate'', ''SalesReceipt'', ''CreditMemo'',
                         ''JournalEntry''} \<longrightarrow> orderBy entity = ''ORDER BY Id DESC'')"
proof -
  have "query_loop (getApiUrl rid) accessToken entity (whereClause options) (orderBy entity)
          mr [] 1 w1 = Some (out, w')"
    using query_unfold [OF assms(1), of entity options] assms(2,3) by simp
  from query_loop_sent [OF this] obtain ps where
    "sent w' = sent w1 @ query_requests (getApiUrl rid) accessToken entity
                 (whereClause options) (orderBy entity) mr (1 # ps)"
    by auto
  then have "sent w' = sent w1 @
            map (\<lambda>p. \<lparr>http_method = ''POST'', url = getApiUrl rid,
                       authorization = Bearer accessToken, accept = ''application/json'',
                       content_type = Some ''application/text'',
                       payload = Text (''SELECT * FROM '' @ entity @ '' ''
                         @ whereClause options @ '' ''
                         @ (if entity \<in> {''Invoice'', ''Bill'', ''Purchase'', ''Deposit'',
                                         ''Payment'', ''TimeActivity'', ''Estimate'',
                                         ''SalesReceipt'', ''CreditMemo'', ''JournalEntry''}
                            then ''ORDER BY TxnDate DESC, Id DESC''
                            else ''ORDER BY Id DESC'')
                         @ '' STARTPOSITION '' @ dec_nat p
                         @ '' MAXRESULTS '' @ dec_num mr)\<rparr>)
              (1 # ps)"
    by (simp add: query_requests_def query_request_def query_sql_def orderBy_def
        transactionEntities_def)
  then show ?thesis
    by (intro conjI exI [of _ ps]) (simp_all add: orderBy_def transactionEntities_def)
qed

lemma dec_nat_1: "dec_nat 1 = ''1''"
  by (simp add: dec_nat.simps digit_def)

lemma dec_nat_1000: "dec_nat 1000 = ''1000''"
  by (simp add: dec_nat.simps digit_def)

lemma dec_num_1000: "dec_num (Num 1000) = ''1000''"
  by (simp add: dec_int_def dec_nat_1000)

lemma example_query_run:
  "query example_platform entity no_options
     (example_world 1700000000000 example_credentials (always (page_reply entity [])))
   = Some (Inr [],
       example_world 1700000000000 example_credentials (always (page_reply entity []))
         \<lparr>sent := [query_request (getApiUrl ''9130'') ''cached''
                     (query_sql entity [] (orderBy entity) 1 (Num 1000))]\<rparr>)"
proof -
  let ?w = "example_world 1700000000000 example_credentials (always (page_reply entity []))"
  have s0: "sent ?w = []" by (simp add: example_world_def)
  have mr: "Num 1000 = (case maxResults no_options of None \<Rightarrow> Num 1000 | Some m \<Rightarrow> m)"
    by (simp add: no_options_def)
  have wc: "whereClause no_options = []"
    by (simp add: whereClause_def conditions_def no_options_def truthy_def)
  have "page ?w (length (sent ?w) + length ([]::entity_doc list list)) entity = Some []"
    by (simp add: page_page_reply)
  from query_paged [OF example_world_token mr _ this] s0 wc show ?thesis
    by (simp add: query_requests_def)
qed

theorem query_order_by_witness:
  "(\<exists>out w'. query example_platform ''Invoice'' no_options
       (example_world 1700000000000 example_credentials (always (page_reply ''Invoice'' [])))
       = Some (out, w')
     \<and> map payload (sent w')
       = [Text (''SELECT * FROM Invoice  ORDER BY TxnDate DESC, Id DESC''
                @ '' STARTPOSITION 1 MAXRESULTS 1000'')])
   \<and> (\<exists>out w'. query example_platform ''Customer'' no_options
       (example_world 1700000000000 example_credentials (always (page_reply ''Customer'' [])))
       = Some (out, w')
     \<and> map payload (sent w')
       = [Text (''SELECT * FROM Customer  ORDER BY Id DESC''
                @ '' STARTPOSITION 1 MAXRESULTS 1000'')])"
proof -
  have mr: "Num 1000 = (case maxResults no_options of None \<Rightarrow> Num 1000 | Some m \<Rightarrow> m)"
    by (simp add: no_options_def)
  have wc: "whereClause no_options = []"
    by (simp add: whereClause_def conditions_def no_options_def truthy_def)
  have one: "\<exists>out w'. query example_platform entity no_options
       (example_world 1700000000000 example_credentials (always (page_reply entity [])))
       = Some (out, w')
     \<and> map payload (sent w')
       = [Text (''SELECT * FROM '' @ entity @ ''  ''
            @ (if entity \<in> {''Invoice'', ''Bill'', ''Purchase'', ''Deposit'',
                            ''Payment'', ''TimeActivity'', ''Estimate'',
                            ''SalesReceipt'', ''CreditMemo'', ''JournalEntry''}
               then ''ORDER BY TxnDate DESC, Id DESC'' else ''ORDER BY Id DESC'')
            @ '' STARTPOSITION 1 MAXRESULTS 1000'')]" for entity
  proof -
    let ?w = "example_world 1700000000000 example_credentials (always (page_reply entity []))"
    let ?w' = "?w\<lparr>sent := [query_request (getApiUrl ''9130'') ''cached''
                     (query_sql entity [] (orderBy entity) 1 (Num 1000))]\<rparr>"
    have run: "query example_platform entity no_options ?w = Some (Inr [], ?w')"
      by (rule example_query_run)
    have s0: "sent ?w = []" by (simp add: example_world_def)
    from query_order_by [OF example_world_token mr run, THEN conjunct1] obtain ps where
      ps: "sent ?w' = sent ?w @
            map (\<lambda>p. \<lparr>http_method = ''POST'', url = getApiUrl ''9130'',
                       authorization = Bearer ''cached'', accept = ''application/json'',
                       content_type = Some ''application/text'',
                       payload = Text (''SELECT * FROM '' @ entity @ '' ''
                         @ whereClause no_options @ '' ''
                         @ (if entity \<in> {''Invoice'', ''Bill'', ''Purchase'', ''Deposit'',
                                         ''Payment'', ''TimeActivity'', ''Estimate'',
                                         ''SalesReceipt'', ''CreditMemo'', ''JournalEntry''}
                            then ''ORDER BY TxnDate DESC, Id DESC''
                            else ''ORDER BY Id DESC'')
                         @ '' STARTPOSITION '' @ dec_nat p
                         @ '' MAXRESULTS '' @ dec_num (Num 1000))\<rparr>)
              (1 # ps)"
      ..
    then have "length (sent ?w') = length (1 # ps)"
      by (simp only: s0 append_Nil length_map)
    then have "ps = []" by simp
    with ps have "sent ?w' = sent ?w @
            [\<lparr>http_method = ''POST'', url = getApiUrl ''9130'',
                       authorization = Bearer ''cached'', accept = ''application/json'',
                       content_type = Some ''application/text'',
                       payload = Text (''SELECT * FROM '' @ entity @ '' ''
                         @ whereClause no_options @ '' ''
                         @ (if entity \<in> {''Invoice'', ''Bill'', ''Purchase'', ''Deposit'',
                                         ''Payment'', ''TimeActivity'', ''Estimate'',
                                         ''SalesReceipt'', ''CreditMemo'', ''JournalEntry''}
                            then ''ORDER BY TxnDate DESC, Id DESC''
                            else ''ORDER BY Id DESC'')
                         @ '' STARTPOSITION '' @ dec_nat 1
                         @ '' MAXRESULTS '' @ dec_num (Num 1000))\<rparr>]"
      by (simp only: list.map)
    then have "map payload (sent ?w')
       = [Text (''SELECT * FROM '' @ entity @ ''  ''
            @ (if entity \<in> {''Invoice'', ''Bill'', ''Purchase'', ''Deposit'',
                            ''Payment'', ''TimeActivity'', ''Estimate'',
                            ''SalesReceipt'', ''CreditMemo'', ''JournalEntry''}
               then ''ORDER BY TxnDate DESC, Id DESC'' else ''ORDER BY Id DESC'')
            @ '' STARTPOSITION 1 MAXRESULTS 1000'')]"
      by (simp only: s0 wc dec_nat_1 dec_num_1000 append_Nil list.map request.simps)
        (simp split: if_splits)
    with run show ?thesis
      by (intro exI [of _ "Inr []"] exI [of _ ?w'] conjI)
  qed
  from one [of "''Invoice''"] one [of "''Customer''"] show ?thesis
    by simp
qed

section \<open>Non-success replies\<close>

lemma query_fails_after:
  assumes tok: "getValidAccessToken rt w = (Inr (accessToken, rid), w1)"
    and mr: "mr = (case maxResults options of None \<Rightarrow> Num 1000 | Some m \<Rightarrow> m)"
    and full: "\<forall>i < length ps. page w1 (length (sent w1) + i) entity = Some (ps ! i)
                 \<and> \<not> lt_num (length (ps ! i)) mr"
    and bad: "remote w1 (length (sent w1) + length ps) = Responds r" "\<not> ok r"
  shows "query rt entity options w =
         Some (Inl (api_error r),
           w1\<lparr>sent := sent w1 @ query_requests (getApiUrl rid) accessToken entity
                   (whereClause options) (orderBy entity) mr
                   (positions 1 ps @ [1 + sum_list (map length ps)])\<rparr>)"
proof -
  let ?U = "getApiUrl rid" and ?wc = "whereClause options" and ?ob = "orderBy entity"
  let ?w2 = "w1\<lparr>sent := sent w1 @ query_requests ?U accessToken entity ?wc ?ob mr
                 (positions 1 ps)\<rparr>"
  have "query rt entity options w = query_loop ?U accessToken entity ?wc ?ob mr [] 1 w1"
    using query_unfold [OF tok] mr by simp
  also have "\<dots> = query_loop ?U accessToken entity ?wc ?ob mr (concat ps)
                     (1 + sum_list (map length ps)) ?w2"
    using query_loop_pages [OF full, of ?U accessToken ?wc ?ob "[]" 1] by simp
  also have "\<dots> = Some (Inl (api_error r),
      ?w2\<lparr>sent := sent ?w2 @ [query_request ?U accessToken
               (query_sql entity ?wc ?ob (1 + sum_list (map length ps)) mr)]\<rparr>)"
    using bad by (intro query_loop_not_ok) (simp_all add: query_requests_def)
  finally show ?thesis
    by (simp add: query_requests_def)
qed

lemma getById_not_ok:
  assumes "getValidAccessToken rt w = (Inr (accessToken, rid), w1)"
    and "remote w1 (length (sent w1)) = Responds r" and "\<not> ok r"
  shows "getById rt entity ident w =
         (Inl (api_error r),
          w1\<lparr>sent := sent w1 @ [get_request (getEntityUrl rid entity ident) accessToken]\<rparr>)"
  using assms by (simp add: getById_def fetch_Responds)

text \<open>
  C6. A reply with a status outside 200..299 makes the refresh, the query (on any
  page) and the lookup by ID fail with an error whose message holds the status
  code, the status text and the body as received; the failing request is the last
  one sent. A failure to obtain the token fails the query and the lookup with the
  same error and no further request.
\<close>

theorem non_success_status_fails:
  "(loadCredentials w = Inr c \<and> remote w (length (sent w)) = Responds r \<and> \<not> ok r
      \<longrightarrow> refreshAccessToken rt w =
            (Inl (Error (''Token refresh failed: '' @ dec_nat (status r) @ '' ''
                    @ statusText r @ ''\<newline>'' @ body_text r)),
             w\<lparr>sent := sent w @ [token_request c]\<rparr>))
   \<and> (getValidAccessToken rt w = (Inr (accessToken, rid), w1)
       \<and> (\<forall>i < length ps. page w1 (length (sent w1) + i) entity = Some (ps ! i)
              \<and> \<not> lt_num (length (ps ! i))
                   (case maxResults options of None \<Rightarrow> Num 1000 | Some m \<Rightarrow> m))
       \<and> remote w1 (length (sent w1) + length ps) = Responds r \<and> \<not> ok r
      \<longrightarrow> (\<exists>w'. query rt entity options w =
              Some (Inl (Error (''QuickBooks API error: '' @ dec_nat (status r) @ '' ''
                      @ statusText r @ ''\<newline>'' @ body_text r)), w')
             \<and> length (sent w') = length (sent w1) + length ps + 1
             \<and> stored w' = stored w1))
   \<and> (getValidAccessToken rt w = (Inr (accessToken, rid), w1)
       \<and> remote w1 (length (sent w1)) = Responds r \<and> \<not> ok r
      \<longrightarrow> getById rt entity ident w =
            (Inl (Error (''QuickBooks API error: '' @ dec_nat (status r) @ '' ''
                    @ statusText r @ ''\<newline>'' @ body_text r)),
             w1\<lparr>sent := sent w1 @ [get_request (getEntityUrl rid entity ident) accessToken]\<rparr>))
   \<and> (getValidAccessToken rt w = (Inl e, w1)
      \<longrightarrow> query rt entity options w = Some (Inl e, w1)
          \<and> getById rt entity ident w = (Inl e, w1))"
proof (intro conjI impI)
  assume "loadCredentials w = Inr c \<and> remote w (length (sent w)) = Responds r \<and> \<not> ok r"
  then show "refreshAccessToken rt w =
            (Inl (Error (''Token refresh failed: '' @ dec_nat (status r) @ '' ''
                    @ statusText r @ ''\<newline>'' @ body_text r)),
             w\<lparr>sent := sent w @ [token_request c]\<rparr>)"
    by (simp add: refresh_not_ok)
next
  let ?mr = "case maxResults options of None \<Rightarrow> Num 1000 | Some m \<Rightarrow> m"
  assume a: "getValidAccessToken rt w = (Inr (accessToken, rid), w1)
       \<and> (\<forall>i < length ps. page w1 (length (sent w1) + i) entity = Some (ps ! i)
              \<and> \<not> lt_num (length (ps ! i)) ?mr)
       \<and> remote w1 (length (sent w1) + length ps) = Responds r \<and> \<not> ok r"
  then have "query rt entity options w =
         Some (Inl (api_error r),
           w1\<lparr>sent := sent w1 @ query_requests (getApiUrl rid) accessToken entity
                   (whereClause options) (orderBy entity) ?mr
                   (positions 1 ps @ [1 + sum_list (map length ps)])\<rparr>)"
    by (intro query_fails_after) auto
  then show "\<exists>w'. query rt entity options w =
              Some (Inl (Error (''QuickBooks API error: '' @ dec_nat (status r) @ '' ''
                      @ statusText r @ ''\<newline>'' @ body_text r)), w')
             \<and> length (sent w') = length (sent w1) + length ps + 1
             \<and> stored w' = stored w1"
    by (simp add: api_error_def query_requests_def)
next
  assume "getValidAccessToken rt w = (Inr (accessToken, rid), w1)
       \<and> remote w1 (length (sent w1)) = Responds r \<and> \<not> ok r"
  then show "getById rt entity ident w =
            (Inl (Error (''QuickBooks API error: '' @ dec_nat (status r) @ '' ''
                    @ statusText r @ ''\<newline>'' @ body_text r)),
             w1\<lparr>sent := sent w1 @ [get_request (getEntityUrl rid entity ident) accessToken]\<rparr>)"
    by (simp add: getById_not_ok api_error_def)
next
  assume "getValidAccessToken rt w = (Inl e, w1)"
  then show "query rt entity options w = Some (Inl e, w1)"
    and "getById rt entity ident w = (Inl e, w1)"
    by (simp_all add: query_def getById_def)
qed

lemma dec_nat_401: "dec_nat 401 = ''401''"
  by (simp add: dec_nat.simps digit_def)

lemma example_world_load:
  "loadCredentials (example_world t example_credentials R) = Inr example_credentials"
  by (simp add: loadCredentials_Inr example_world_def required_present_def
      example_credentials_def truthy_def)

theorem non_success_status_fails_witness:
  "refreshAccessToken example_platform
      (example_world 1700000000000 example_credentials
         (always (status_reply 401 ''Unauthorized'' ''invalid_grant'')))
     = (Inl (Error ''Token refresh failed: 401 Unauthorized\<newline>invalid_grant''),
        example_world 1700000000000 example_credentials
         (always (status_reply 401 ''Unauthorized'' ''invalid_grant''))
         \<lparr>sent := [token_request example_credentials]\<rparr>)
   \<and> (\<exists>w'. query example_platform ''Invoice'' no_options
        (example_world 1700000000000 example_credentials
           (script [page_reply ''Invoice'' (replicate 1000 example_entity)]
              (status_reply 401 ''Unauthorized'' ''expired'')))
        = Some (Inl (Error ''QuickBooks API error: 401 Unauthorized\<newline>expired''), w')
        \<and> length (sent w') = 2)
   \<and> fst (getById example_platform ''Invoice'' ''12''
        (example_world 1700000000000 example_credentials
           (always (status_reply 401 ''Unauthorized'' ''expired''))))
     = Inl (Error ''QuickBooks API error: 401 Unauthorized\<newline>expired'')"
proof -
  let ?bad = "\<lambda>b. \<lparr>status = 401, statusText = ''Unauthorized'', body_text = b,
                    body_json = Inl ''Unexpected end of JSON input''\<rparr>"
  let ?wa = "example_world 1700000000000 example_credentials
         (always (status_reply 401 ''Unauthorized'' ''invalid_grant''))"
  let ?wb = "example_world 1700000000000 example_credentials
           (script [page_reply ''Invoice'' (replicate 1000 example_entity)]
              (status_reply 401 ''Unauthorized'' ''expired''))"
  let ?wc = "example_world 1700000000000 example_credentials
           (always (status_reply 401 ''Unauthorized'' ''expired''))"
  have s0: "length (sent ?wa) = 0" "length (sent ?wb) = 0" "length (sent ?wc) = 0"
    "sent ?wa = []" "sent ?wc = []"
    by (simp_all add: example_world_def)
  have ra: "remote ?wa 0 = Responds (?bad ''invalid_grant'')"
    and rb: "remote ?wb (Suc 0) = Responds (?bad ''expired'')"
    and rc: "remote ?wc 0 = Responds (?bad ''expired'')"
    by (simp_all add: example_world_def always_def script_def status_reply_def)
  have nok: "\<not> ok (?bad b)" for b
    by (simp add: ok_def)
  have a: "refreshAccessToken example_platform ?wa
     = (Inl (Error ''Token refresh failed: 401 Unauthorized\<newline>invalid_grant''),
        ?wa\<lparr>sent := [token_request example_credentials]\<rparr>)"
    using non_success_status_fails [where w = ?wa and c = example_credentials
        and r = "?bad ''invalid_grant''" and rt = example_platform,
        THEN conjunct1, THEN mp]
    by (simp add: example_world_load s0 ra nok dec_nat_401)
  have "\<exists>w'. query example_platform ''Invoice'' no_options ?wb
        = Some (Inl (Error (''QuickBooks API error: '' @ dec_nat (status (?bad ''expired''))
             @ '' '' @ statusText (?bad ''expired'') @ ''\<newline>''
             @ body_text (?bad ''expired''))), w')
        \<and> length (sent w') = length (sent ?wb) + length [replicate 1000 example_entity] + 1
        \<and> stored w' = stored ?wb"
    by (rule non_success_status_fails [where w = ?wb and r = "?bad ''expired''"
        and rt = example_platform and accessToken = "''cached''" and rid = "''9130''"
        and ?w1.0 = ?wb and ps = "[replicate 1000 example_entity]" and entity = "''Invoice''"
        and options = no_options, THEN conjunct2, THEN conjunct1, THEN mp])
      (simp add: example_world_token s0 rb nok page_script page_page_reply no_options_def)
  then have b: "\<exists>w'. query example_platform ''Invoice'' no_options ?wb
        = Some (Inl (Error ''QuickBooks API error: 401 Unauthorized\<newline>expired''), w')
        \<and> length (sent w') = 2"
    by (auto simp: dec_nat_401 s0)
  have "getById example_platform ''Invoice'' ''12'' ?wc
     = (Inl (Error (''QuickBooks API error: '' @ dec_nat (status (?bad ''expired''))
             @ '' '' @ statusText (?bad ''expired'') @ ''\<newline>''
             @ body_text (?bad ''expired''))),
        ?wc\<lparr>sent := sent ?wc @ [get_request (getEntityUrl ''9130'' ''Invoice'' ''12'')
                                    ''cached'']\<rparr>)"
    by (rule non_success_status_fails [where w = ?wc and r = "?bad ''expired''"
        and rt = example_platform and accessToken = "''cached''" and rid = "''9130''"
        and ?w1.0 = ?wc and entity = "''Invoice''" and ident = "''12''",
        THEN conjunct2, THEN conjunct2, THEN conjunct1, THEN mp])
      (simp add: example_world_token s0 rc nok)
  then have c: "fst (getById example_platform ''Invoice'' ''12'' ?wc)
     = Inl (Error ''QuickBooks API error: 401 Unauthorized\<newline>expired'')"
    by (simp add: dec_nat_401)
  from a b c show ?thesis by simp
qed

section \<open>Termination of the query loop\<close>

lemma lt_num_never:
  "mr = NaN \<or> (\<exists>m \<le> 0. mr = Num m) \<Longrightarrow> \<not> lt_num n mr"
  by auto

lemma lt_num_positive: "lt_num n mr \<Longrightarrow> \<exists>m \<ge> 1. mr = Num m"
  by (cases mr) auto

text \<open>
  C10. With a page size that is zero, negative or \<open>NaN\<close>, \<open>query\<close> never returns
  records: whatever it returns is an error, and when every call is answered by a
  page it does not return at all. With a page size of at least 1 it returns as
  soon as some page is shorter than the page size; and it returns records only for
  such a page size. The command line hands \<open>parseInt\<close> of \<open>--max\<close> to \<open>query\<close> as
  it is, zero and negative numbers included.
\<close>

theorem query_termination:
  assumes "getValidAccessToken rt w = (Inr (accessToken, rid), w1)"
    and "mr = (case maxResults options of None \<Rightarrow> Num 1000 | Some m \<Rightarrow> m)"
  shows "((mr = NaN \<or> (\<exists>m \<le> 0. mr = Num m)) \<longrightarrow>
            (\<forall>out. query rt entity options w = Some out \<longrightarrow> (\<exists>err. fst out = Inl err))
            \<and> ((\<forall>i \<ge> length (sent w1). page w1 i entity \<noteq> None)
                 \<longrightarrow> query rt entity options w = None))
         \<and> ((\<exists>m \<ge> 1. mr = Num m)
             \<and> (\<exists>k rs. page w1 (length (sent w1) + k) entity = Some rs \<and> lt_num (length rs) mr)
            \<longrightarrow> (\<exists>out. query rt entity options w = Some out))
         \<and> ((\<exists>rs w'. query rt entity options w = Some (Inr rs, w')) \<longrightarrow> (\<exists>m \<ge> 1. mr = Num m))
         \<and> (truthy (flags ''max'') \<longrightarrow>
               maxResults (handleEntityQuery_options flags) = Some (parseInt (str (flags ''max''))))
         \<and> handleEntityQuery rt entity flags w
             = query rt entity (handleEntityQuery_options flags) w
         \<and> parseInt ''0'' = Num 0 \<and> parseInt ''-5'' = Num (- 5)"
proof -
  let ?loop = "query_loop (getApiUrl rid) accessToken entity (whereClause options)
                 (orderBy entity) mr [] 1 w1"
  have q: "query rt entity options w = ?loop"
    using query_unfold [OF assms(1)] assms(2) by simp
  have never: "(\<exists>err. fst out = Inl err) \<and> (\<exists>i \<ge> length (sent w1). page w1 i entity = None)"
    if "\<forall>n. \<not> lt_num n mr" and "?loop = Some out" for out
    using query_loop_never_breaks [OF that(2)] that(1) by blast
  have a: "(\<forall>out. query rt entity options w = Some out \<longrightarrow> (\<exists>err. fst out = Inl err))
            \<and> ((\<forall>i \<ge> length (sent w1). page w1 i entity \<noteq> None)
                 \<longrightarrow> query rt entity options w = None)"
    if "mr = NaN \<or> (\<exists>m \<le> 0. mr = Num m)"
  proof -
    from that have nb: "\<forall>n. \<not> lt_num n mr"
      by (auto dest: lt_num_never)
    show ?thesis
    proof (intro conjI allI impI)
      fix out assume "query rt entity options w = Some out"
      with never [OF nb] q show "\<exists>err. fst out = Inl err" by simp
    next
      assume served: "\<forall>i \<ge> length (sent w1). page w1 i entity \<noteq> None"
      show "query rt entity options w = None"
      proof (cases "query rt entity options w")
        case None
        then show ?thesis .
      next
        case (Some out)
        with q have "?loop = Some out" by simp
        from never [OF nb this] served show ?thesis by auto
      qed
    qed
  qed
  have b: "\<exists>out. query rt entity options w = Some out"
    if "\<exists>k rs. page w1 (length (sent w1) + k) entity = Some rs \<and> lt_num (length rs) mr"
  proof -
    from that obtain k rs where
      "page w1 (length (sent w1) + k) entity = Some rs" "lt_num (length rs) mr"
      by blast
    from query_loop_terminates [OF this] q show ?thesis by simp
  qed
  have c: "\<exists>m \<ge> 1. mr = Num m" if "\<exists>rs w'. query rt entity options w = Some (Inr rs, w')"
  proof (rule ccontr)
    assume "\<not> (\<exists>m \<ge> 1. mr = Num m)"
    then have nb: "\<forall>n. \<not> lt_num n mr"
      by (auto dest: lt_num_positive)
    from that obtain rs w' where "?loop = Some (Inr rs, w')"
      using q by auto
    from never [OF nb this] show False by simp
  qed
  have d: "truthy (flags ''max'') \<longrightarrow>
               maxResults (handleEntityQuery_options flags) = Some (parseInt (str (flags ''max'')))"
    by (simp add: handleEntityQuery_options_def)
  have e: "parseInt ''0'' = Num 0" "parseInt ''-5'' = Num (- 5)"
    by (simp_all add: parseInt_def is_space_def is_digit_def digits_value_def)
  from a b c d e show ?thesis
    by (simp add: handleEntityQuery_def)
qed

theorem query_termination_witness:
  "handleEntityQuery example_platform ''Invoice'' [''max'' \<mapsto> ''0'']
      (example_world 1700000000000 example_credentials (always (page_reply ''Invoice'' [])))
     = None
   \<and> (\<exists>out. handleEntityQuery example_platform ''Invoice'' [''max'' \<mapsto> ''5'']
         (example_world 1700000000000 example_credentials
            (script [page_reply ''Invoice'' (replicate 5 example_entity)]
               (page_reply ''Invoice'' (replicate 2 example_entity))))
        = Some out)"
proof -
  let ?wa = "example_world 1700000000000 example_credentials (always (page_reply ''Invoice'' []))"
  let ?wb = "example_world 1700000000000 example_credentials
            (script [page_reply ''Invoice'' (replicate 5 example_entity)]
               (page_reply ''Invoice'' (replicate 2 example_entity)))"
  let ?fa = "[''max'' \<mapsto> ''0'']" and ?fb = "[''max'' \<mapsto> ''5'']"
  have p5: "parseInt ''5'' = Num 5"
    by (simp add: parseInt_def is_space_def is_digit_def digits_value_def)
  have p0: "parseInt ''0'' = Num 0"
    by (simp add: parseInt_def is_space_def is_digit_def digits_value_def)
  have ma: "Num 0 = (case maxResults (handleEntityQuery_options ?fa) of
                       None \<Rightarrow> Num 1000 | Some m \<Rightarrow> m)"
    by (simp add: handleEntityQuery_options_def truthy_def str_def p0)
  have mb: "Num 5 = (case maxResults (handleEntityQuery_options ?fb) of
                       None \<Rightarrow> Num 1000 | Some m \<Rightarrow> m)"
    by (simp add: handleEntityQuery_options_def truthy_def str_def p5)
  have served: "\<forall>i \<ge> length (sent ?wa). page ?wa i ''Invoice'' \<noteq> None"
    by (simp add: page_page_reply)
  have short: "page ?wb (length (sent ?wb) + 1) ''Invoice'' = Some (replicate 2 example_entity)"
    by (simp add: page_script page_page_reply)
  let ?Ra = "always (page_reply ''Invoice'' [])"
  let ?Rb = "script [page_reply ''Invoice'' (replicate 5 example_entity)]
               (page_reply ''Invoice'' (replicate 2 example_entity))"
  note ta = query_termination [OF example_world_token [of ?Ra] ma,
      where entity = "''Invoice''" and flags = ?fa]
  note tb = query_termination [OF example_world_token [of ?Rb] mb,
      where entity = "''Invoice''" and flags = ?fb]
  have "query example_platform ''Invoice'' (handleEntityQuery_options ?fa) ?wa = None"
    using ta [THEN conjunct1] served by blast
  with ta have a: "handleEntityQuery example_platform ''Invoice'' ?fa ?wa = None"
    by simp
  have "\<exists>m\<ge>1. Num 5 = Num m" by simp
  moreover have "\<exists>k rs. page ?wb (length (sent ?wb) + k) ''Invoice'' = Some rs
                  \<and> lt_num (length rs) (Num 5)"
    using short by (intro exI [of _ 1] exI [of _ "replicate 2 example_entity"]) simp
  ultimately have "\<exists>out. query example_platform ''Invoice'' (handleEntityQuery_options ?fb) ?wb
                     = Some out"
    using tb [THEN conjunct2, THEN conjunct1] by blast
  with tb have b: "\<exists>out. handleEntityQuery example_platform ''Invoice'' ?fb ?wb = Some out"
    by simp
  from a b show ?thesis by simp
qed

section \<open>The connection check\<close>

text \<open>
  C9. \<open>checkConnection\<close> always returns a result and never an error. The result
  is not connected and carries a description when the token cannot be obtained
  (the message of that error), when the request is rejected (its message), when
  the status is not a success (code, text and body) and when the body is not JSON;
  it is connected, with the company information of the reply and the realm id, on
  a success with a JSON body.
\<close>

theorem checkConnection_never_raises:
  "\<exists>res w'. checkConnection rt w = (Inr res, w')
     \<and> (connected res \<longrightarrow> error res = None \<and> realmId res \<noteq> None)
     \<and> (\<not> connected res \<longrightarrow> error res \<noteq> None \<and> companyInfo res = None \<and> realmId res = None)
     \<and> (\<forall>e w1. getValidAccessToken rt w = (Inl e, w1)
           \<longrightarrow> res = failure (message e) \<and> w' = w1)
     \<and> (\<forall>tok rid w1. getValidAccessToken rt w = (Inr (tok, rid), w1)
           \<longrightarrow> w' = w1\<lparr>sent := sent w1 @ [get_request (getCompanyInfoUrl rid) tok]\<rparr>
              \<and> (\<forall>m. remote w1 (length (sent w1)) = Rejects m \<longrightarrow> res = failure m)
              \<and> (\<forall>r. remote w1 (length (sent w1)) = Responds r \<and> \<not> ok r
                    \<longrightarrow> res = failure (''API error: '' @ dec_nat (status r) @ '' ''
                                        @ statusText r @ ''\<newline>'' @ body_text r))
              \<and> (\<forall>r m. remote w1 (length (sent w1)) = Responds r \<and> ok r
                        \<and> body_json r = Inl m \<longrightarrow> res = failure m)
              \<and> (\<forall>r d. remote w1 (length (sent w1)) = Responds r \<and> ok r
                        \<and> body_json r = Inr d
                    \<longrightarrow> res = \<lparr>connected = True,
                               companyInfo = map_of (j_members d) ''CompanyInfo'',
                               realmId = Some rid, error = None\<rparr>))"
proof (cases "getValidAccessToken rt w")
  case (Pair res0 w1)
  show ?thesis
  proof (cases res0)
    case (Inl e)
    with Pair show ?thesis
      by (simp add: checkConnection_def checkConnection_try_def failure_def)
  next
    case (Inr p)
    obtain tok rid where p: "p = (tok, rid)" by (cases p)
    show ?thesis
    proof (cases "remote w1 (length (sent w1))")
      case (Rejects m)
      with Pair Inr p show ?thesis
        by (simp add: checkConnection_def checkConnection_try_def failure_def fetch_Rejects)
    next
      case (Responds r)
      show ?thesis
      proof (cases "ok r")
        case False
        with Pair Inr p Responds show ?thesis
          by (simp add: checkConnection_def checkConnection_try_def failure_def fetch_Responds)
      next
        case True
        with Pair Inr p Responds show ?thesis
          by (cases "body_json r")
            (simp_all add: checkConnection_def checkConnection_try_def failure_def
              fetch_Responds)
      qed
    qed
  qed
qed

theorem checkConnection_never_raises_witness:
  "fst (checkConnection example_platform
          (example_world 1700000000000 example_credentials (always company_reply)))
     = Inr \<lparr>connected = True, companyInfo = Some [(''CompanyName'', ''Acme'')],
            realmId = Some ''9130'', error = None\<rparr>
   \<and> fst (checkConnection example_platform
          (example_world 1700000000000 example_credentials
             (always (status_reply 401 ''Unauthorized'' ''expired''))))
     = Inr (failure ''API error: 401 Unauthorized\<newline>expired'')
   \<and> fst (checkConnection example_platform
          (example_world 1700000000000 example_credentials (always (Rejects ''fetch failed''))))
     = Inr (failure ''fetch failed'')
   \<and> fst (checkConnection example_platform
          (example_world 1700003600000 example_credentials (always (Rejects ''fetch failed''))))
     = Inr (failure ''fetch failed'')"
proof -
  let ?d = "\<lparr>j_access_token = None, j_refresh_token = None,
                         j_expires_in = None, j_QueryResponse = None,
                         j_members = [(''CompanyInfo'', [(''CompanyName'', ''Acme'')])]\<rparr>"
  let ?r = "\<lparr>status = 200, statusText = ''OK'', body_text = ''{}'', body_json = Inr ?d\<rparr>"
  let ?bad = "\<lparr>status = 401, statusText = ''Unauthorized'', body_text = ''expired'',
                    body_json = Inl ''Unexpected end of JSON input''\<rparr>"
  let ?wa = "example_world 1700000000000 example_credentials (always company_reply)"
  let ?wb = "example_world 1700000000000 example_credentials
             (always (status_reply 401 ''Unauthorized'' ''expired''))"
  let ?wc = "example_world 1700000000000 example_credentials (always (Rejects ''fetch failed''))"
  let ?wd = "example_world 1700003600000 example_credentials (always (Rejects ''fetch failed''))"
  have ra: "remote ?wa (length (sent ?wa)) = Responds ?r \<and> ok ?r \<and> body_json ?r = Inr ?d"
    by (simp add: example_world_def always_def company_reply_def ok_def)
  have rb: "remote ?wb (length (sent ?wb)) = Responds ?bad \<and> \<not> ok ?bad"
    by (simp add: example_world_def always_def status_reply_def ok_def)
  have rc: "remote ?wc (length (sent ?wc)) = Rejects ''fetch failed''"
    by (simp add: example_world_def always_def)
  have td: "getValidAccessToken example_platform ?wd
            = (Inl (TypeError ''fetch failed''), ?wd\<lparr>sent := [token_request example_credentials]\<rparr>)"
    by (simp add: getValidAccessToken_def example_world_load still_valid_def
        refreshAccessToken_def fetch_def Let_def)
       (simp add: example_world_def example_credentials_def example_platform_def
        truthy_def str_def always_def)
  from checkConnection_never_raises [of example_platform ?wa] example_world_token ra
  have a: "fst (checkConnection example_platform ?wa)
     = Inr \<lparr>connected = True, companyInfo = Some [(''CompanyName'', ''Acme'')],
            realmId = Some ''9130'', error = None\<rparr>"
    by fastforce
  from checkConnection_never_raises [of example_platform ?wb] example_world_token rb
  have b: "fst (checkConnection example_platform ?wb)
     = Inr (failure ''API error: 401 Unauthorized\<newline>expired'')"
    by (fastforce simp: dec_nat_401)
  from checkConnection_never_raises [of example_platform ?wc] example_world_token rc
  have c: "fst (checkConnection example_platform ?wc) = Inr (failure ''fetch failed'')"
    by fastforce
  from checkConnection_never_raises [of example_platform ?wd] td
  have d: "fst (checkConnection example_platform ?wd) = Inr (failure ''fetch failed'')"
    by fastforce
  from a b c d show ?thesis by simp
qed

section \<open>Reference maps\<close>

lemma getReferenceMaps_paged:
  assumes tok: "getValidAccessToken rt w = (Inr (accessToken, rid), w1)"
    and full: "\<forall>i < length ps. page w1 (length (sent w1) + i) entityType = Some (ps ! i)
                 \<and> \<not> length (ps ! i) < MAX_RESULTS_PER_PAGE"
    and short: "page w1 (length (sent w1) + length ps) entityType = Some final"
      "length final < MAX_RESULTS_PER_PAGE"
  shows "getReferenceMaps rt entityType w =
         Some (Inr (add_refs (concat ps @ final) Map.empty),
           w1\<lparr>sent := sent w1 @ refs_requests (getApiUrl rid) accessToken entityType
                   (positions 1 (ps @ [final]))\<rparr>)"
proof -
  let ?U = "getApiUrl rid"
  let ?w2 = "w1\<lparr>sent := sent w1 @ refs_requests ?U accessToken entityType (positions 1 ps)\<rparr>"
  have "getReferenceMaps rt entityType w = refs_loop ?U accessToken entityType Map.empty 1 w1"
    using tok by (simp add: getReferenceMaps_def)
  also have "\<dots> = refs_loop ?U accessToken entityType (add_refs (concat ps) Map.empty)
                     (1 + sum_list (map length ps)) ?w2"
    using refs_loop_pages [OF full, of ?U accessToken Map.empty 1] by simp
  also have "\<dots> = Some (Inr (add_refs final (add_refs (concat ps) Map.empty)),
      ?w2\<lparr>sent := sent ?w2 @ [query_request ?U accessToken
               (refs_sql entityType (1 + sum_list (map length ps)))]\<rparr>)"
    using short by (intro refs_loop_short) (simp_all add: refs_requests_def)
  finally show ?thesis
    by (simp add: positions_append refs_requests_def add_refs_append)
qed

text \<open>
  C8 (as amended). Once the token is obtained, let the remote serve pages of 1000
  records or more and then a page of fewer than 1000 (possibly empty).
  \<open>getReferenceMaps\<close> then returns, after one request per page, the map built from
  the scanned records that have a non-empty \<open>Id\<close> other than \<open>__proto__\<close> and a
  non-empty \<open>FullyQualifiedName\<close> alone: every entry comes from such a record, the
  ID of every such record is a key, a record that no later such record shares its
  ID with is mapped to its own name, and the map has at most as many keys as
  records scanned.
\<close>

theorem getReferenceMaps_spec:
  assumes "getValidAccessToken rt w = (Inr (accessToken, rid), w1)"
    and "\<forall>i < length ps. page w1 (length (sent w1) + i) entityType = Some (ps ! i)
           \<and> \<not> length (ps ! i) < 1000"
    and "page w1 (length (sent w1) + length ps) entityType = Some final"
    and "length final < 1000"
    and "scanned = concat ps @ final"
  shows "\<exists>m w'. getReferenceMaps rt entityType w = Some (Inr m, w')
           \<and> length (sent w') = length (sent w1) + length ps + 1
           \<and> m = add_refs (filter kept scanned) Map.empty
           \<and> (\<forall>k v. m k = Some v \<longrightarrow>
                 (\<exists>r \<in> set scanned. map_of r ''Id'' = Some k \<and> k \<noteq> []
                    \<and> k \<noteq> ''__proto__''
                    \<and> map_of r ''FullyQualifiedName'' = Some v \<and> v \<noteq> []))
           \<and> (\<forall>r \<in> set scanned.
                 truthy (map_of r ''Id'') \<and> truthy (map_of r ''FullyQualifiedName'')
                 \<and> map_of r ''Id'' \<noteq> Some ''__proto__''
                 \<longrightarrow> str (map_of r ''Id'') \<in> dom m)
           \<and> (\<forall>pre r post. scanned = pre @ r # post \<and> kept r
                  \<and> (\<forall>r' \<in> set post. kept r' \<longrightarrow> map_of r' ''Id'' \<noteq> map_of r ''Id'')
                 \<longrightarrow> m (str (map_of r ''Id'')) = map_of r ''FullyQualifiedName'')
           \<and> m ''__proto__'' = None
           \<and> card (dom m) \<le> length scanned"
proof -
  let ?m = "add_refs scanned Map.empty"
  let ?w' = "w1\<lparr>sent := sent w1 @ refs_requests (getApiUrl rid) accessToken entityType
                   (positions 1 (ps @ [final]))\<rparr>"
  have run: "getReferenceMaps rt entityType w = Some (Inr ?m, ?w')"
    using assms by (simp add: getReferenceMaps_paged MAX_RESULTS_PER_PAGE_def)
  have n: "length (sent ?w') = length (sent w1) + length ps + 1"
    by (simp add: refs_requests_def)
  have f: "?m = add_refs (filter kept scanned) Map.empty"
    by (rule add_refs_filter)
  have e: "\<exists>r \<in> set scanned. map_of r ''Id'' = Some k \<and> k \<noteq> [] \<and> k \<noteq> ''__proto__''
             \<and> map_of r ''FullyQualifiedName'' = Some v \<and> v \<noteq> []"
    if "?m k = Some v" for k v
  proof -
    from add_refs_entry [OF that] obtain r where
      r: "r \<in> set scanned" "kept r" "map_of r ''Id'' = Some k"
         "map_of r ''FullyQualifiedName'' = Some v"
      by auto
    from kept_Id [OF r(2)] r(3,4) have "k \<noteq> []" "k \<noteq> ''__proto__''" "v \<noteq> []"
      by (simp_all add: str_def)
    with r show ?thesis by blast
  qed
  have d: "\<forall>r \<in> set scanned.
                 truthy (map_of r ''Id'') \<and> truthy (map_of r ''FullyQualifiedName'')
                 \<and> map_of r ''Id'' \<noteq> Some ''__proto__''
                 \<longrightarrow> str (map_of r ''Id'') \<in> dom ?m"
    by (auto simp: dom_add_refs kept_def has_both_def)
  have l: "?m (str (map_of r ''Id'')) = map_of r ''FullyQualifiedName''"
    if "scanned = pre @ r # post" "kept r"
      "\<forall>r' \<in> set post. kept r' \<longrightarrow> map_of r' ''Id'' \<noteq> map_of r ''Id''"
    for pre r post
    using add_refs_last_wins [OF that(2,3), of pre Map.empty] that(1) by simp
  have np: "?m ''__proto__'' = None"
  proof (cases "?m ''__proto__''")
    case None
    then show ?thesis .
  next
    case (Some v)
    from e [OF this] show ?thesis by simp
  qed
  have c: "card (dom ?m) \<le> length scanned"
    by (rule card_dom_add_refs)
  show ?thesis
  proof (intro exI [of _ ?m] exI [of _ ?w'] conjI)
    show "getReferenceMaps rt entityType w = Some (Inr ?m, ?w')" by (rule run)
    show "length (sent ?w') = length (sent w1) + length ps + 1" by (rule n)
    show "?m = add_refs (filter kept scanned) Map.empty" by (rule f)
    show "\<forall>k v. ?m k = Some v \<longrightarrow>
                 (\<exists>r \<in> set scanned. map_of r ''Id'' = Some k \<and> k \<noteq> []
                    \<and> k \<noteq> ''__proto__''
                    \<and> map_of r ''FullyQualifiedName'' = Some v \<and> v \<noteq> [])"
      using e by blast
    show "\<forall>r \<in> set scanned.
                 truthy (map_of r ''Id'') \<and> truthy (map_of r ''FullyQualifiedName'')
                 \<and> map_of r ''Id'' \<noteq> Some ''__proto__''
                 \<longrightarrow> str (map_of r ''Id'') \<in> dom ?m" by (rule d)
    show "\<forall>pre r post. scanned = pre @ r # post \<and> kept r
                  \<and> (\<forall>r' \<in> set post. kept r' \<longrightarrow> map_of r' ''Id'' \<noteq> map_of r ''Id'')
                 \<longrightarrow> ?m (str (map_of r ''Id'')) = map_of r ''FullyQualifiedName''"
      using l by blast
    show "?m ''__proto__'' = None" by (rule np)
    show "card (dom ?m) \<le> length scanned" by (rule c)
  qed
qed

lemma example_refs_run:
  assumes "length rs < 1000"
  shows "getReferenceMaps example_platform entityType
           (example_world 1700000000000 example_credentials (always (page_reply entityType rs)))
         = Some (Inr (add_refs rs Map.empty),
             example_world 1700000000000 example_credentials (always (page_reply entityType rs))
               \<lparr>sent := [query_request (getApiUrl ''9130'') ''cached'' (refs_sql entityType 1)]\<rparr>)"
proof -
  let ?w = "example_world 1700000000000 example_credentials (always (page_reply entityType rs))"
  have s0: "sent ?w = []" by (simp add: example_world_def)
  have "page ?w (length (sent ?w) + length ([]::entity_doc list list)) entityType = Some rs"
    by (simp add: page_page_reply)
  from getReferenceMaps_paged [OF example_world_token _ this] assms s0 show ?thesis
    by (simp add: MAX_RESULTS_PER_PAGE_def refs_requests_def)
qed

lemma example_kept:
  "kept old_customer" "kept new_customer" "\<not> kept unnamed_customer" "\<not> kept proto_customer"
  "has_both proto_customer"
  by (simp_all add: kept_def has_both_def truthy_def old_customer_def new_customer_def
      unnamed_customer_def proto_customer_def)

text \<open>
  The claim as stated fails when an ID occurs twice: the later record takes the
  place of the earlier, which has both fields and is not in the result. It fails
  also for the ID \<open>__proto__\<close>: that record has both fields and makes no key.
\<close>

theorem getReferenceMaps_duplicate_id:
  "has_both old_customer
   \<and> map_of old_customer ''Id'' = Some ''1''
   \<and> map_of old_customer ''FullyQualifiedName'' = Some ''Old Name''
   \<and> lookup_ref (getReferenceMaps example_platform ''Customer''
        (example_world 1700000000000 example_credentials
           (always (page_reply ''Customer'' [old_customer, new_customer])))) ''1''
      = Some ''New Name''
   \<and> has_both proto_customer
   \<and> map_of proto_customer ''Id'' = Some ''__proto__''
   \<and> lookup_ref (getReferenceMaps example_platform ''Customer''
        (example_world 1700000000000 example_credentials
           (always (page_reply ''Customer'' [proto_customer])))) ''__proto__''
      = None"
  by (simp add: example_refs_run lookup_ref_def add_refs_Cons example_kept)
     (simp add: has_both_def truthy_def str_def old_customer_def new_customer_def
        proto_customer_def)

theorem getReferenceMaps_spec_witness:
  "lookup_ref (getReferenceMaps example_platform ''Customer''
        (example_world 1700000000000 example_credentials
           (always (page_reply ''Customer''
              [old_customer, unnamed_customer, proto_customer, new_customer])))) ''1''
      = Some ''New Name''
   \<and> lookup_ref (getReferenceMaps example_platform ''Customer''
        (example_world 1700000000000 example_credentials
           (always (page_reply ''Customer''
              [old_customer, unnamed_customer, proto_customer, new_customer])))) ''2''
      = None
   \<and> lookup_ref (getReferenceMaps example_platform ''Customer''
        (example_world 1700000000000 example_credentials
           (always (page_reply ''Customer''
              [old_customer, unnamed_customer, proto_customer, new_customer])))) ''__proto__''
      = None"
proof -
  let ?rs = "[old_customer, unnamed_customer, proto_customer, new_customer]"
  let ?w = "example_world 1700000000000 example_credentials
              (always (page_reply ''Customer'' ?rs))"
  have full: "\<forall>i < length ([]::entity_doc list list).
      page ?w (length (sent ?w) + i) ''Customer'' = Some ([] ! i) \<and> \<not> length ([] ! i) < 1000"
    by simp
  have short: "page ?w (length (sent ?w) + length ([]::entity_doc list list)) ''Customer''
        = Some ?rs"
    by (simp add: page_page_reply)
  from getReferenceMaps_spec [OF example_world_token full short, of ?rs]
  obtain m w' where run: "getReferenceMaps example_platform ''Customer'' ?w = Some (Inr m, w')"
    and m: "m = add_refs (filter kept ?rs) Map.empty"
    and np: "m ''__proto__'' = None"
    by auto
  from m have "m ''1'' = Some ''New Name''" "m ''2'' = None"
    by (simp_all add: example_kept add_refs_Cons)
       (simp_all add: str_def old_customer_def new_customer_def)
  with run np show ?thesis
    by (simp add: lookup_ref_def)
qed

end
